theory Spec2Isabelle
  imports Complex_Main
begin

section \<open>JavaScript values\<close>

text \<open>
  The validators of \<^verbatim>\<open>src/validation/matches.js\<close> receive what Express hands them:
  a parsed JSON body, the route parameters, the parsed query string. These are
  JavaScript values built from \<^verbatim>\<open>undefined\<close>, \<^verbatim>\<open>null\<close>, booleans, numbers, strings,
  arrays and plain objects.

  A JavaScript number is an IEEE double. It is modelled by its mathematical value:
  \<open>NaN\<close>, the two infinities, or a rational. The two zeros are one value here; every
  comparison the validators make (\<open><\<close>, \<open>\<le>\<close>, \<^verbatim>\<open>Number.isInteger\<close>,
  \<^verbatim>\<open>Number.isSafeInteger\<close>) treats them alike. A string is a list of code units below 256.
  An object is the list of its own properties in insertion order.
\<close>

datatype jsnum = NaN | PosInf | NegInf | Fin rat

datatype jsval =
    Undefined
  | Null
  | Bool bool
  | Num jsnum
  | Str string
  | Arr "jsval list"
  | Obj "(string \<times> jsval) list"

text \<open>Property access \<^verbatim>\<open>input[key]\<close> on an object: a missing key reads as \<^verbatim>\<open>undefined\<close>.\<close>

definition getprop :: "(string \<times> jsval) list \<Rightarrow> string \<Rightarrow> jsval" where
  "getprop kvs k = (case map_of kvs k of None \<Rightarrow> Undefined | Some v \<Rightarrow> v)"

subsection \<open>Rounding a mathematical value to a double\<close>

function bitlen :: "int \<Rightarrow> int" where
  "bitlen n = (if n \<le> 0 then 0 else 1 + bitlen (n div 2))"
  by pat_completeness auto
termination
  by (relation "measure nat") auto

definition pow2 :: "int \<Rightarrow> rat" where
  "pow2 e = (if 0 \<le> e then 2 ^ nat e else 1 / 2 ^ nat (- e))"

definition pow10 :: "int \<Rightarrow> rat" where
  "pow10 e = (if 0 \<le> e then 10 ^ nat e else 1 / 10 ^ nat (- e))"

text \<open>\<open>ilog2 a\<close> is the exponent \<open>e\<close> with \<open>2^e \<le> a < 2^(e+1)\<close>, for a positive \<open>a\<close>.\<close>

definition ilog2 :: "rat \<Rightarrow> int" where
  "ilog2 a =
     (let (p, d) = quotient_of a;
          k = bitlen p - bitlen d
      in if pow2 k \<le> a then k else k - 1)"

definition round_ties_even :: "rat \<Rightarrow> int" where
  "round_ties_even q =
     (let f = \<lfloor>q\<rfloor>; d = q - of_int f
      in if d < 1 / 2 then f
         else if 1 / 2 < d then f + 1
         else if even f then f else f + 1)"

text \<open>
  Round to nearest, ties to even, with 53 bits of precision, gradual underflow below
  \<open>2^-1022\<close> and overflow to infinity from \<open>2^1024\<close> on.
\<close>

definition float64 :: "rat \<Rightarrow> jsnum" where
  "float64 q =
     (if q = 0 then Fin 0
      else let a = \<bar>q\<bar>;
               e = max (ilog2 a) (- 1022);
               u = pow2 (e - 52);
               r = of_int (round_ties_even (a / u)) * u
           in if pow2 1024 \<le> r then (if q < 0 then NegInf else PosInf)
              else Fin (if q < 0 then - r else r))"

subsection \<open>\<^verbatim>\<open>Number(value)\<close>\<close>

definition is_ws :: "char \<Rightarrow> bool" where
  "is_ws c = ((of_char c :: int) \<in> {9, 10, 11, 12, 13, 32, 160})"

definition trim :: "string \<Rightarrow> string" where
  "trim s = rev (dropWhile is_ws (rev (dropWhile is_ws s)))"

definition digit_of :: "char \<Rightarrow> int option" where
  "digit_of c =
     (let n = (of_char c :: int)
      in if 48 \<le> n \<and> n \<le> 57 then Some (n - 48)
         else if 97 \<le> n \<and> n \<le> 102 then Some (n - 87)
         else if 65 \<le> n \<and> n \<le> 70 then Some (n - 55)
         else None)"

definition is_digit_in :: "int \<Rightarrow> char \<Rightarrow> bool" where
  "is_digit_in b c = (case digit_of c of None \<Rightarrow> False | Some d \<Rightarrow> d < b)"

abbreviation is_dec :: "char \<Rightarrow> bool" where
  "is_dec \<equiv> is_digit_in 10"

definition digits_val :: "int \<Rightarrow> string \<Rightarrow> int" where
  "digits_val b s = foldl (\<lambda>acc c. acc * b + (case digit_of c of None \<Rightarrow> 0 | Some d \<Rightarrow> d)) 0 s"

definition all_digits :: "int \<Rightarrow> string \<Rightarrow> bool" where
  "all_digits b s = (s \<noteq> [] \<and> list_all (is_digit_in b) s)"

text \<open>SignedInteger of the ExponentPart: digits with an optional sign.\<close>

definition signed_integer :: "string \<Rightarrow> int option" where
  "signed_integer s =
     (case s of
        [] \<Rightarrow> None
      | c # t \<Rightarrow>
          if c = CHR ''+'' then (if all_digits 10 t then Some (digits_val 10 t) else None)
          else if c = CHR ''-'' then (if all_digits 10 t then Some (- digits_val 10 t) else None)
          else if all_digits 10 s then Some (digits_val 10 s) else None)"

text \<open>
  StrUnsignedDecimalLiteral without \<^verbatim>\<open>Infinity\<close>: digits, an optional fraction, an optional
  exponent, with a digit before or after the point. The result is the exact value.
\<close>

definition str_unsigned_decimal :: "string \<Rightarrow> rat option" where
  "str_unsigned_decimal s =
     (let ip = takeWhile is_dec s;
          r1 = dropWhile is_dec s;
          fp = (case r1 of [] \<Rightarrow> [] | c # t \<Rightarrow> if c = CHR ''.'' then takeWhile is_dec t else []);
          r2 = (case r1 of [] \<Rightarrow> [] | c # t \<Rightarrow> if c = CHR ''.'' then dropWhile is_dec t else r1);
          ex = (case r2 of
                  [] \<Rightarrow> Some 0
                | c # t \<Rightarrow> if c = CHR ''e'' \<or> c = CHR ''E'' then signed_integer t else None)
      in if ip = [] \<and> fp = [] then None
         else case ex of
                None \<Rightarrow> None
              | Some e \<Rightarrow>
                  Some ((of_int (digits_val 10 ip) + of_int (digits_val 10 fp) / 10 ^ length fp)
                        * pow10 e))"

definition non_decimal_integer :: "string \<Rightarrow> int option" where
  "non_decimal_integer s =
     (case s of
        c0 # c1 # t \<Rightarrow>
          if c0 \<noteq> CHR ''0'' then None
          else if c1 = CHR ''x'' \<or> c1 = CHR ''X'' then
            (if all_digits 16 t then Some (digits_val 16 t) else None)
          else if c1 = CHR ''o'' \<or> c1 = CHR ''O'' then
            (if all_digits 8 t then Some (digits_val 8 t) else None)
          else if c1 = CHR ''b'' \<or> c1 = CHR ''B'' then
            (if all_digits 2 t then Some (digits_val 2 t) else None)
          else None
      | _ \<Rightarrow> None)"

definition str_unsigned :: "string \<Rightarrow> jsnum" where
  "str_unsigned s =
     (if s = ''Infinity'' then PosInf
      else case str_unsigned_decimal s of None \<Rightarrow> NaN | Some q \<Rightarrow> float64 q)"

definition negate :: "jsnum \<Rightarrow> jsnum" where
  "negate n = (case n of NaN \<Rightarrow> NaN | PosInf \<Rightarrow> NegInf | NegInf \<Rightarrow> PosInf | Fin q \<Rightarrow> Fin (- q))"

text \<open>StringToNumber: white space is trimmed, the empty string is 0, no parse is NaN.\<close>

definition StringToNumber :: "string \<Rightarrow> jsnum" where
  "StringToNumber str =
     (let s = trim str
      in case s of
           [] \<Rightarrow> Fin 0
         | c # t \<Rightarrow>
             (case non_decimal_integer s of
                Some n \<Rightarrow> float64 (of_int n)
              | None \<Rightarrow>
                  if c = CHR ''+'' then str_unsigned t
                  else if c = CHR ''-'' then negate (str_unsigned t)
                  else str_unsigned s))"

text \<open>
  \<^verbatim>\<open>Number(v)\<close>. An array is first turned into a string, its elements joined by commas
  (\<^verbatim>\<open>undefined\<close> and \<^verbatim>\<open>null\<close> as the empty string): the empty array gives \<^verbatim>\<open>""\<close>, a
  single element gives that element's own string, and two or more elements give a
  string with a comma, which is no numeric literal. A plain object turns into
  \<^verbatim>\<open>"[object Object]"\<close>.
\<close>

fun Number :: "jsval \<Rightarrow> jsnum" where
  "Number Undefined = NaN"
| "Number Null = Fin 0"
| "Number (Bool b) = (if b then Fin 1 else Fin 0)"
| "Number (Num n) = n"
| "Number (Str s) = StringToNumber s"
| "Number (Arr []) = Fin 0"
| "Number (Arr [Undefined]) = Fin 0"
| "Number (Arr [Null]) = Fin 0"
| "Number (Arr [Bool b]) = NaN"
| "Number (Arr [Num n]) = n"
| "Number (Arr [Str s]) = StringToNumber s"
| "Number (Arr [Arr ys]) = Number (Arr ys)"
| "Number (Arr [Obj kvs]) = NaN"
| "Number (Arr (x # y # zs)) = NaN"
| "Number (Obj kvs) = NaN"


section \<open>\<^verbatim>\<open>Date.parse\<close>\<close>

text \<open>
  The pattern of \<^verbatim>\<open>z.iso.datetime()\<close> with its default options (no offset, no local
  time, any precision):
  \<^verbatim>\<open>^DATE T (?:[01]\d|2[0-3]):[0-5]\d (?::[0-5]\d(?:\.\d+)?)? (?:Z)$\<close>
  where \<^verbatim>\<open>DATE\<close> is
  \<^verbatim>\<open>(?:\d\d[2468][048]|\d\d[13579][26]|\d\d0[48]|[02468][048]00|[13579][26]00)-02-29\<close>
  or \<^verbatim>\<open>\d{4}-\<close> followed by one of
  \<^verbatim>\<open>(?:0[13578]|1[02])-(?:0[1-9]|[12]\d|3[01])\<close>,
  \<^verbatim>\<open>(?:0[469]|11)-(?:0[1-9]|[12]\d|30)\<close>,
  \<^verbatim>\<open>(?:02)-(?:0[1-9]|1\d|2[0-8])\<close>.
\<close>

definition one_of :: "string \<Rightarrow> char \<Rightarrow> bool" where
  "one_of cs c = (c \<in> set cs)"

definition leap_year_pattern :: "char \<Rightarrow> char \<Rightarrow> char \<Rightarrow> char \<Rightarrow> bool" where
  "leap_year_pattern y1 y2 y3 y4 =
     (is_dec y1 \<and> is_dec y2 \<and> one_of ''2468'' y3 \<and> one_of ''048'' y4
      \<or> is_dec y1 \<and> is_dec y2 \<and> one_of ''13579'' y3 \<and> one_of ''26'' y4
      \<or> is_dec y1 \<and> is_dec y2 \<and> y3 = CHR ''0'' \<and> one_of ''48'' y4
      \<or> one_of ''02468'' y1 \<and> one_of ''048'' y2 \<and> y3 = CHR ''0'' \<and> y4 = CHR ''0''
      \<or> one_of ''13579'' y1 \<and> one_of ''26'' y2 \<and> y3 = CHR ''0'' \<and> y4 = CHR ''0'')"

definition day_1_to_31 :: "char \<Rightarrow> char \<Rightarrow> bool" where
  "day_1_to_31 d1 d2 =
     (d1 = CHR ''0'' \<and> one_of ''123456789'' d2
      \<or> one_of ''12'' d1 \<and> is_dec d2
      \<or> d1 = CHR ''3'' \<and> one_of ''01'' d2)"

definition day_1_to_30 :: "char \<Rightarrow> char \<Rightarrow> bool" where
  "day_1_to_30 d1 d2 =
     (d1 = CHR ''0'' \<and> one_of ''123456789'' d2
      \<or> one_of ''12'' d1 \<and> is_dec d2
      \<or> d1 = CHR ''3'' \<and> d2 = CHR ''0'')"

definition day_1_to_28 :: "char \<Rightarrow> char \<Rightarrow> bool" where
  "day_1_to_28 d1 d2 =
     (d1 = CHR ''0'' \<and> one_of ''123456789'' d2
      \<or> d1 = CHR ''1'' \<and> is_dec d2
      \<or> d1 = CHR ''2'' \<and> one_of ''012345678'' d2)"

fun date_pattern :: "string \<Rightarrow> bool" where
  "date_pattern [y1, y2, y3, y4, s1, m1, m2, s2, d1, d2] =
     (s1 = CHR ''-'' \<and> s2 = CHR ''-'' \<and>
      (leap_year_pattern y1 y2 y3 y4 \<and> [m1, m2, d1, d2] = ''0229''
       \<or> is_dec y1 \<and> is_dec y2 \<and> is_dec y3 \<and> is_dec y4 \<and>
         ((m1 = CHR ''0'' \<and> one_of ''13578'' m2 \<or> m1 = CHR ''1'' \<and> one_of ''02'' m2)
            \<and> day_1_to_31 d1 d2
          \<or> (m1 = CHR ''0'' \<and> one_of ''469'' m2 \<or> [m1, m2] = ''11'') \<and> day_1_to_30 d1 d2
          \<or> [m1, m2] = ''02'' \<and> day_1_to_28 d1 d2)))"
| "date_pattern _ = False"

text \<open>The seconds, their fraction and the closing \<^verbatim>\<open>Z\<close>.\<close>

definition fraction_z :: "string \<Rightarrow> bool" where
  "fraction_z r =
     (case r of
        [] \<Rightarrow> False
      | c # f \<Rightarrow> c = CHR ''.'' \<and> takeWhile is_dec f \<noteq> [] \<and> dropWhile is_dec f = ''Z'')"

definition seconds_z :: "string \<Rightarrow> bool" where
  "seconds_z r =
     (r = ''Z'' \<or>
      (case r of
         c # s1 # s2 # t \<Rightarrow>
           c = CHR '':'' \<and> one_of ''012345'' s1 \<and> is_dec s2 \<and> (t = ''Z'' \<or> fraction_z t)
       | _ \<Rightarrow> False))"

fun time_pattern :: "string \<Rightarrow> bool" where
  "time_pattern (h1 # h2 # c # m1 # m2 # r) =
     ((one_of ''01'' h1 \<and> is_dec h2 \<or> h1 = CHR ''2'' \<and> one_of ''0123'' h2)
      \<and> c = CHR '':'' \<and> one_of ''012345'' m1 \<and> is_dec m2 \<and> seconds_z r)"
| "time_pattern _ = False"

definition datetime_pattern :: "string \<Rightarrow> bool" where
  "datetime_pattern s =
     (date_pattern (take 10 s) \<and> take 1 (drop 10 s) = ''T'' \<and> time_pattern (drop 11 s))"

text \<open>
  \<^verbatim>\<open>Date.parse(string)\<close> gives the time value in milliseconds since the epoch, or \<^verbatim>\<open>NaN\<close>
  (here \<open>None\<close>). The language standard fixes the result on its own date-time format.
  The model computes it for the UTC forms of that format,
  \<^verbatim>\<open>YYYY-MM-DDTHH:mmZ\<close>, \<^verbatim>\<open>YYYY-MM-DDTHH:mm:ssZ\<close> and \<^verbatim>\<open>YYYY-MM-DDTHH:mm:ss.sssZ\<close>
  with a date of the calendar; every other string is left to the engine's own fallback
  parser, which is a parameter \<open>host\<close> of the model.
\<close>

definition num_at :: "string \<Rightarrow> nat \<Rightarrow> nat \<Rightarrow> int" where
  "num_at s i n = digits_val 10 (take n (drop i s))"

definition days_from_civil :: "int \<Rightarrow> int \<Rightarrow> int \<Rightarrow> int" where
  "days_from_civil y m d =
     (let y1 = (if m \<le> 2 then y - 1 else y);
          era = y1 div 400;
          yoe = y1 - era * 400;
          mp = (m + 9) mod 12;
          doy = (153 * mp + 2) div 5 + d - 1;
          doe = yoe * 365 + yoe div 4 - yoe div 100 + doy
      in era * 146097 + doe - 719468)"

definition standard_utc_format :: "string \<Rightarrow> bool" where
  "standard_utc_format s = (datetime_pattern s \<and> length s \<in> {17, 20, 24})"

definition time_value :: "string \<Rightarrow> int" where
  "time_value s =
     (let day = days_from_civil (num_at s 0 4) (num_at s 5 2) (num_at s 8 2);
          sec = (if 20 \<le> length s then num_at s 17 2 else 0);
          ms = (if 24 \<le> length s then num_at s 20 3 else 0)
      in (((day * 24 + num_at s 11 2) * 60 + num_at s 14 2) * 60 + sec) * 1000 + ms)"

text \<open>An engine whose fallback parser rejects every string outside that format.\<close>

definition no_fallback :: "string \<Rightarrow> int option" where
  "no_fallback s = None"

definition Date_parse :: "(string \<Rightarrow> int option) \<Rightarrow> jsval \<Rightarrow> int option" where
  "Date_parse host v =
     (case v of
        Str s \<Rightarrow> if standard_utc_format s then Some (time_value s) else host s
      | _ \<Rightarrow> None)"


section \<open>The schema library\<close>

text \<open>
  The validators are built from the combinators of the schema library, zod. The source
  uses \<^verbatim>\<open>z.iso.datetime()\<close>, which zod has from version 4 on; the model follows zod 4.0.0.
  A schema runs on an input and yields a payload: the output value and the issues
  found. An issue carries its code with the bound or the expected type, the path of the
  field it is about, the message the schema gave for it (if it gave one), and the flag
  \<^verbatim>\<open>continue\<close>: an issue that is not continuable aborts the checks that would run
  after it.

  The library is a dependency of the repository, not a part of it. Its combinators are
  modelled as zod 4.0.0 has them: a wrong type is an issue that is not continuable; a
  failed bound, length or format check is continuable; a check without a guard of its
  own, a refinement included, does not run once an issue that is not continuable
  exists; a length check has a guard of its own and runs on every value that has a
  length, whatever issues exist; \<^verbatim>\<open>z.number()\<close> rejects \<^verbatim>\<open>NaN\<close> and the infinities;
  \<^verbatim>\<open>.int()\<close> admits safe integers only; an object schema validates every key of its
  shape and drops the other keys.
\<close>

datatype issue_code =
    invalid_type string
  | too_small string int bool
  | too_big string int bool
  | invalid_format string
  | custom

record issue =
  code :: issue_code
  path :: "string list"
  message :: "string option"
  continue :: bool

record payload =
  "value" :: jsval
  issues :: "issue list"

text \<open>
  A check has the function that finds its issues and, optionally, a guard
  (\<^verbatim>\<open>when\<close> in the library) that decides on the payload whether the check runs.
\<close>

record check =
  check_when :: "(payload \<Rightarrow> bool) option"
  check_run :: "payload \<Rightarrow> issue list"

type_synonym schema = "jsval \<Rightarrow> payload"

definition aborted :: "issue list \<Rightarrow> bool" where
  "aborted is = list_ex (\<lambda>i. \<not> continue i) is"

text \<open>A check without a guard.\<close>

definition plain_check :: "(payload \<Rightarrow> issue list) \<Rightarrow> check" where
  "plain_check f = \<lparr>check_when = None, check_run = f\<rparr>"

text \<open>
  The checks of a schema run in order on the parsed payload; each pushes its issues.
  A check with a guard runs when its guard holds. A check without one is skipped once
  the payload holds an issue that is not continuable.
\<close>

fun runChecks :: "check list \<Rightarrow> payload \<Rightarrow> payload" where
  "runChecks [] p = p"
| "runChecks (ch # chs) p =
     runChecks chs
       (if (case check_when ch of None \<Rightarrow> \<not> aborted (issues p) | Some w \<Rightarrow> w p)
        then p\<lparr>issues := issues p @ check_run ch p\<rparr>
        else p)"

definition type_issue :: "string \<Rightarrow> issue" where
  "type_issue expected =
     \<lparr>code = invalid_type expected, path = [], message = None, continue = False\<rparr>"

subsection \<open>Strings\<close>

definition z_string :: "check list \<Rightarrow> schema" where
  "z_string checks v =
     runChecks checks
       \<lparr>value = v, issues = (case v of Str s \<Rightarrow> [] | _ \<Rightarrow> [type_issue ''string''])\<rparr>"

text \<open>
  \<^verbatim>\<open>.min(n, { message })\<close>: the length of the value is at least \<open>n\<close>. The guard of the
  check holds on every value that is neither \<^verbatim>\<open>null\<close> nor \<^verbatim>\<open>undefined\<close> and whose
  \<^verbatim>\<open>length\<close> is not \<^verbatim>\<open>undefined\<close>: a string, an array, an object with a property
  \<^verbatim>\<open>length\<close>. So the check also runs on an array or such an object that the string
  schema has already refused. The comparison \<^verbatim>\<open>input.length >= n\<close> converts the length
  of an object with \<^verbatim>\<open>Number\<close>. The issue names the kind of the value as its origin.
\<close>

definition has_length :: "payload \<Rightarrow> bool" where
  "has_length p =
     (case value p of
        Str s \<Rightarrow> True
      | Arr xs \<Rightarrow> True
      | Obj kvs \<Rightarrow> getprop kvs ''length'' \<noteq> Undefined
      | _ \<Rightarrow> False)"

definition length_at_least :: "jsval \<Rightarrow> nat \<Rightarrow> bool" where
  "length_at_least v n =
     (case v of
        Str s \<Rightarrow> n \<le> length s
      | Arr xs \<Rightarrow> n \<le> length xs
      | Obj kvs \<Rightarrow>
          (case Number (getprop kvs ''length'') of
             Fin q \<Rightarrow> of_nat n \<le> q
           | PosInf \<Rightarrow> True
           | _ \<Rightarrow> False)
      | _ \<Rightarrow> False)"

definition lengthable_origin :: "jsval \<Rightarrow> string" where
  "lengthable_origin v =
     (case v of Arr xs \<Rightarrow> ''array'' | Str s \<Rightarrow> ''string'' | _ \<Rightarrow> ''unknown'')"

definition min_length :: "nat \<Rightarrow> string \<Rightarrow> payload \<Rightarrow> issue list" where
  "min_length n msg p =
     (if length_at_least (value p) n then []
      else [\<lparr>code = too_small (lengthable_origin (value p)) (int n) True, path = [],
             message = Some msg, continue = True\<rparr>])"

definition z_min_length :: "nat \<Rightarrow> string \<Rightarrow> check" where
  "z_min_length n msg = \<lparr>check_when = Some has_length, check_run = min_length n msg\<rparr>"

text \<open>\<^verbatim>\<open>z.iso.datetime()\<close>: a string schema whose first check is the pattern.\<close>

definition datetime_format :: "payload \<Rightarrow> issue list" where
  "datetime_format p =
     (case value p of
        Str s \<Rightarrow>
          if datetime_pattern s then []
          else [\<lparr>code = invalid_format ''datetime'', path = [], message = None, continue = True\<rparr>]
      | _ \<Rightarrow> [])"

definition datetime_check :: check where
  "datetime_check = plain_check datetime_format"

definition z_iso_datetime :: schema where
  "z_iso_datetime = z_string [datetime_check]"

subsection \<open>Numbers\<close>

text \<open>
  \<^verbatim>\<open>z.coerce.number()\<close> replaces the input by \<^verbatim>\<open>Number(input)\<close> and accepts it when it is
  a finite number.
\<close>

definition z_coerce_number :: "check list \<Rightarrow> schema" where
  "z_coerce_number checks v =
     (let n = Number v
      in runChecks checks
           \<lparr>value = Num n, issues = (case n of Fin q \<Rightarrow> [] | _ \<Rightarrow> [type_issue ''number''])\<rparr>)"

definition MAX_SAFE_INTEGER :: int where
  "MAX_SAFE_INTEGER = 2 ^ 53 - 1"

definition MIN_SAFE_INTEGER :: int where
  "MIN_SAFE_INTEGER = - (2 ^ 53 - 1)"

definition isInteger :: "rat \<Rightarrow> bool" where
  "isInteger q = (of_int \<lfloor>q\<rfloor> = q)"

definition isSafeInteger :: "rat \<Rightarrow> bool" where
  "isSafeInteger q =
     (isInteger q \<and> of_int MIN_SAFE_INTEGER \<le> q \<and> q \<le> of_int MAX_SAFE_INTEGER)"

text \<open>
  \<^verbatim>\<open>.int()\<close>: the number is an integer (an issue that is not continuable otherwise) and
  lies in the safe integer range. The issue for an integer outside that range carries
  no \<^verbatim>\<open>inclusive\<close> flag in zod 4.0.0, which the model reads as false.
\<close>

definition int_format :: "payload \<Rightarrow> issue list" where
  "int_format p =
     (case value p of
        Num (Fin q) \<Rightarrow>
          if \<not> isInteger q then
            [\<lparr>code = invalid_type ''int'', path = [], message = None, continue = False\<rparr>]
          else if \<not> isSafeInteger q then
            (if 0 < q then
               [\<lparr>code = too_big ''int'' MAX_SAFE_INTEGER False, path = [],
                  message = None, continue = True\<rparr>]
             else
               [\<lparr>code = too_small ''int'' MIN_SAFE_INTEGER False, path = [],
                  message = None, continue = True\<rparr>])
          else []
      | _ \<Rightarrow> [])"

definition z_int :: check where
  "z_int = plain_check int_format"

text \<open>\<^verbatim>\<open>.positive()\<close> is \<^verbatim>\<open>.gt(0)\<close>, \<^verbatim>\<open>.min(n)\<close> is \<^verbatim>\<open>.gte(n)\<close>, \<^verbatim>\<open>.max(n)\<close> is \<^verbatim>\<open>.lte(n)\<close>.\<close>

definition greater_than :: "int \<Rightarrow> bool \<Rightarrow> payload \<Rightarrow> issue list" where
  "greater_than b inclusive p =
     (case value p of
        Num (Fin q) \<Rightarrow>
          if (if inclusive then of_int b \<le> q else of_int b < q) then []
          else [\<lparr>code = too_small ''number'' b inclusive, path = [],
                 message = None, continue = True\<rparr>]
      | _ \<Rightarrow> [])"

definition less_than :: "int \<Rightarrow> bool \<Rightarrow> payload \<Rightarrow> issue list" where
  "less_than b inclusive p =
     (case value p of
        Num (Fin q) \<Rightarrow>
          if (if inclusive then q \<le> of_int b else q < of_int b) then []
          else [\<lparr>code = too_big ''number'' b inclusive, path = [],
                 message = None, continue = True\<rparr>]
      | _ \<Rightarrow> [])"

definition z_greater :: "int \<Rightarrow> bool \<Rightarrow> check" where
  "z_greater b inclusive = plain_check (greater_than b inclusive)"

definition z_less :: "int \<Rightarrow> bool \<Rightarrow> check" where
  "z_less b inclusive = plain_check (less_than b inclusive)"

definition z_positive :: check where
  "z_positive = z_greater 0 False"

definition z_min :: "int \<Rightarrow> check" where
  "z_min b = z_greater b True"

definition z_max :: "int \<Rightarrow> check" where
  "z_max b = z_less b True"

subsection \<open>Optional fields and objects\<close>

definition optional :: "schema \<Rightarrow> schema" where
  "optional s v = (if v = Undefined then \<lparr>value = Undefined, issues = []\<rparr> else s v)"

definition prefixIssues :: "string \<Rightarrow> issue list \<Rightarrow> issue list" where
  "prefixIssues k is = map (\<lambda>i. i\<lparr>path := k # path i\<rparr>) is"

text \<open>
  An object schema runs the schema of every key of its shape on the property of that
  key, collects the issues of all of them under the key, and keeps the parsed values of
  the shape's keys only. A key whose result is \<^verbatim>\<open>undefined\<close> is kept only when the input
  has it.
\<close>

fun parse_shape :: "(string \<times> schema) list \<Rightarrow> (string \<times> jsval) list
    \<Rightarrow> (string \<times> jsval) list \<times> issue list" where
  "parse_shape [] input = ([], [])"
| "parse_shape ((k, s) # shape) input =
     (let r = s (getprop input k);
          (rest, is) = parse_shape shape input;
          kept = (if value r = Undefined \<and> map_of input k = None then [] else [(k, value r)])
      in (kept @ rest, prefixIssues k (issues r) @ is))"

definition z_object :: "(string \<times> schema) list \<Rightarrow> check list \<Rightarrow> schema" where
  "z_object shape checks v =
     runChecks checks
       (case v of
          Obj input \<Rightarrow>
            (let (data, is) = parse_shape shape input in \<lparr>value = Obj data, issues = is\<rparr>)
        | _ \<Rightarrow> \<lparr>value = v, issues = [type_issue ''object'']\<rparr>)"

text \<open>\<^verbatim>\<open>ctx.addIssue({ code: custom, message })\<close> in a \<^verbatim>\<open>superRefine\<close> callback.\<close>

definition custom_issue :: "string \<Rightarrow> issue" where
  "custom_issue msg = \<lparr>code = custom, path = [], message = Some msg, continue = True\<rparr>"

text \<open>\<^verbatim>\<open>.superRefine(callback)\<close> adds the callback as a check without a guard.\<close>

definition superRefine :: "(payload \<Rightarrow> issue list) \<Rightarrow> check" where
  "superRefine f = plain_check f"

text \<open>\<^verbatim>\<open>schema.safeParse(input)\<close>: the data, or the error with all the issues.\<close>

definition safeParse :: "schema \<Rightarrow> jsval \<Rightarrow> issue list + jsval" where
  "safeParse s v = (let p = s v in if issues p = [] then Inr (value p) else Inl (issues p))"

text \<open>\<^verbatim>\<open>result.success\<close> of a parse result.\<close>

definition success :: "issue list + jsval \<Rightarrow> bool" where
  "success r = (case r of Inl is \<Rightarrow> False | Inr data \<Rightarrow> True)"

section \<open>\<^verbatim>\<open>src/validation/matches.js\<close>\<close>

definition MATCH_STATUS :: "(string \<times> string) list" where
  "MATCH_STATUS =
     [(''SCHEDULED'', ''scheduled''), (''LIVE'', ''live''), (''FINISHED'', ''finished'')]"

definition listMatchesQuerySchema :: schema where
  "listMatchesQuerySchema =
     z_object
       [(''limit'', optional (z_coerce_number [z_int, z_positive, z_max 100]))]
       []"

definition matchIdParamSchema :: schema where
  "matchIdParamSchema =
     z_object [(''id'', z_coerce_number [z_int, z_positive])] []"

text \<open>The callback of \<^verbatim>\<open>superRefine\<close> on the create schema.\<close>

definition createMatch_refine :: "(string \<Rightarrow> int option) \<Rightarrow> payload \<Rightarrow> issue list" where
  "createMatch_refine host p =
     (case value p of
        Obj data \<Rightarrow>
          (let start = Date_parse host (getprop data ''startTime'');
               end = Date_parse host (getprop data ''endTime'')
           in (if start = None then [custom_issue ''startTime must be a valid ISO date''] else [])
              @ (if end = None then [custom_issue ''endTime must be a valid ISO date''] else [])
              @ (case (start, end) of
                   (Some st, Some en) \<Rightarrow>
                     if en \<le> st then [custom_issue ''endTime must be after startTime''] else []
                 | _ \<Rightarrow> []))
      | _ \<Rightarrow> [])"

definition createMatch_shape :: "(string \<times> schema) list" where
  "createMatch_shape =
     [(''sport'', z_string [z_min_length 1 ''sport is required'']),
      (''homeTeam'', z_string [z_min_length 1 ''homeTeam is required'']),
      (''awayTeam'', z_string [z_min_length 1 ''awayTeam is required'']),
      (''startTime'', z_iso_datetime),
      (''endTime'', z_iso_datetime),
      (''homeScore'', optional (z_coerce_number [z_int, z_min 0])),
      (''awayScore'', optional (z_coerce_number [z_int, z_min 0]))]"

definition createMatchSchema :: "(string \<Rightarrow> int option) \<Rightarrow> schema" where
  "createMatchSchema host = z_object createMatch_shape [superRefine (createMatch_refine host)]"

definition updateScoreSchema :: schema where
  "updateScoreSchema =
     z_object
       [(''homeScore'', z_coerce_number [z_int, z_min 0]),
        (''awayScore'', z_coerce_number [z_int, z_min 0])]
       []"


text \<open>
  Predicates on a request body, used to state what the create schema does: a property
  is a string; a property is turned by \<^verbatim>\<open>Number\<close> into an integer; no field of the body
  fails the type test of its schema.
\<close>

definition is_string :: "jsval \<Rightarrow> bool" where
  "is_string v = (case v of Str s \<Rightarrow> True | _ \<Rightarrow> False)"

definition coerces_to_integer :: "jsval \<Rightarrow> bool" where
  "coerces_to_integer v = (case Number v of Fin x \<Rightarrow> isInteger x | _ \<Rightarrow> False)"

definition well_typed_body :: "(string \<times> jsval) list \<Rightarrow> bool" where
  "well_typed_body q =
     (is_string (getprop q ''sport'') \<and> is_string (getprop q ''homeTeam'')
      \<and> is_string (getprop q ''awayTeam'')
      \<and> is_string (getprop q ''startTime'') \<and> is_string (getprop q ''endTime'')
      \<and> (getprop q ''homeScore'' = Undefined \<or> coerces_to_integer (getprop q ''homeScore''))
      \<and> (getprop q ''awayScore'' = Undefined \<or> coerces_to_integer (getprop q ''awayScore'')))"

section \<open>\<^verbatim>\<open>src/db/schema.js\<close>\<close>

text \<open>
  The schema file declares two tables with the column builders of the ORM. A column has
  its SQL name, its type, whether it is \<^verbatim>\<open>NOT NULL\<close>, whether it is the primary key, and
  its default. A row is the list of its values under the property names of the table
  declaration, in column order.
\<close>

datatype sqlval =
    SqlNull
  | SqlInt int
  | SqlText string
  | SqlTimestamp int
  | SqlJson jsval
  | SqlTextArray "string list"

datatype coltype = PgSerial | PgInteger | PgText | PgTimestamp | PgEnum "string list" | PgJsonb
  | PgArray coltype

datatype coldefault = NoDefault | DefaultValue sqlval | DefaultNow | NextVal

record column =
  col_name :: string
  col_type :: coltype
  col_notNull :: bool
  col_primary :: bool
  col_default :: coldefault

definition plain_column :: "coltype \<Rightarrow> string \<Rightarrow> column" where
  "plain_column t n =
     \<lparr>col_name = n, col_type = t, col_notNull = False, col_primary = False,
      col_default = NoDefault\<rparr>"

definition serial :: "string \<Rightarrow> column" where
  "serial n = (plain_column PgSerial n)\<lparr>col_notNull := True, col_default := NextVal\<rparr>"

definition text' :: "string \<Rightarrow> column" where
  "text' = plain_column PgText"

definition timestamp :: "string \<Rightarrow> column" where
  "timestamp = plain_column PgTimestamp"

definition integer :: "string \<Rightarrow> column" where
  "integer = plain_column PgInteger"

definition jsonb :: "string \<Rightarrow> column" where
  "jsonb = plain_column PgJsonb"

definition primaryKey :: "column \<Rightarrow> column" where
  "primaryKey c = c\<lparr>col_primary := True, col_notNull := True\<rparr>"

definition notNull :: "column \<Rightarrow> column" where
  "notNull c = c\<lparr>col_notNull := True\<rparr>"

definition default' :: "sqlval \<Rightarrow> column \<Rightarrow> column" where
  "default' v c = c\<lparr>col_default := DefaultValue v\<rparr>"

definition defaultNow :: "column \<Rightarrow> column" where
  "defaultNow c = c\<lparr>col_default := DefaultNow\<rparr>"

definition array :: "column \<Rightarrow> column" where
  "array c = c\<lparr>col_type := PgArray (col_type c)\<rparr>"

record pg_enum =
  enumName :: string
  enumValues :: "string list"

definition pgEnum :: "string \<Rightarrow> string list \<Rightarrow> pg_enum" where
  "pgEnum n vs = \<lparr>enumName = n, enumValues = vs\<rparr>"

definition enum_column :: "pg_enum \<Rightarrow> string \<Rightarrow> column" where
  "enum_column e = plain_column (PgEnum (enumValues e))"

record foreign_key =
  fk_columns :: "string list"
  fk_foreignTable :: string
  fk_foreignColumns :: "string list"

record table =
  tableName :: string
  tableColumns :: "(string \<times> column) list"
  tableForeignKeys :: "foreign_key list"

definition pgTable :: "string \<Rightarrow> (string \<times> column) list \<Rightarrow> foreign_key list \<Rightarrow> table" where
  "pgTable n cols fks = \<lparr>tableName = n, tableColumns = cols, tableForeignKeys = fks\<rparr>"

definition matchStatusEnum :: pg_enum where
  "matchStatusEnum = pgEnum ''match_status'' [''scheduled'', ''live'', ''finished'']"

definition matches :: table where
  "matches =
     pgTable ''matches''
       [(''id'', primaryKey (serial ''id'')),
        (''sport'', notNull (text' ''sport'')),
        (''homeTeam'', notNull (text' ''home_team'')),
        (''awayTeam'', notNull (text' ''away_team'')),
        (''status'',
           notNull (default' (SqlText ''scheduled'') (enum_column matchStatusEnum ''status''))),
        (''startTime'', notNull (timestamp ''start_time'')),
        (''endTime'', timestamp ''end_time''),
        (''homeScore'', notNull (default' (SqlInt 0) (integer ''home_score''))),
        (''awayScore'', notNull (default' (SqlInt 0) (integer ''away_score''))),
        (''createdAt'', notNull (defaultNow (timestamp ''created_at'')))]
       []"

definition commentary :: table where
  "commentary =
     pgTable ''commentary''
       [(''id'', primaryKey (serial ''id'')),
        (''matchId'', notNull (integer ''match_id'')),
        (''minute'', integer ''minute''),
        (''sequence'', integer ''sequence''),
        (''period'', text' ''period''),
        (''eventType'', text' ''event_type''),
        (''actor'', text' ''actor''),
        (''team'', text' ''team''),
        (''message'', text' ''message''),
        (''metadata'', jsonb ''metadata''),
        (''tags'', array (text' ''tags'')),
        (''createdAt'', notNull (defaultNow (timestamp ''created_at'')))]
       [\<lparr>fk_columns = [''matchId''], fk_foreignTable = ''matches'',
         fk_foreignColumns = [''id'']\<rparr>]"

subsection \<open>What a jsonb column holds\<close>

text \<open>
  A value for a \<^verbatim>\<open>jsonb\<close> column is sent to the store as the text of \<^verbatim>\<open>JSON.stringify\<close>,
  is kept by the store in its normal form, and is read back with \<^verbatim>\<open>JSON.parse\<close>. In the
  text a property whose value is \<^verbatim>\<open>undefined\<close> is left out, and \<^verbatim>\<open>undefined\<close> in an array,
  \<^verbatim>\<open>NaN\<close> and the infinities are written as \<^verbatim>\<open>null\<close>. The store keeps the keys of an object
  in its own order: shorter keys first (by the length of their UTF-8 bytes), keys of
  the same length by their bytes. A number keeps its value.
\<close>

definition utf8 :: "string \<Rightarrow> nat list" where
  "utf8 s =
     concat (map (\<lambda>c. let n = (of_char c :: nat)
                       in if n < 128 then [n] else [192 + n div 64, 128 + n mod 64]) s)"

fun bytes_le :: "nat list \<Rightarrow> nat list \<Rightarrow> bool" where
  "bytes_le [] ys = True"
| "bytes_le (x # xs) [] = False"
| "bytes_le (x # xs) (y # ys) = (x < y \<or> (x = y \<and> bytes_le xs ys))"

definition key_le :: "string \<Rightarrow> string \<Rightarrow> bool" where
  "key_le a b =
     (length (utf8 a) < length (utf8 b)
      \<or> (length (utf8 a) = length (utf8 b) \<and> bytes_le (utf8 a) (utf8 b)))"

fun insert_pair :: "string \<times> jsval \<Rightarrow> (string \<times> jsval) list \<Rightarrow> (string \<times> jsval) list" where
  "insert_pair kv [] = [kv]"
| "insert_pair kv (kv' # kvs) =
     (if key_le (fst kv) (fst kv') then kv # kv' # kvs else kv' # insert_pair kv kvs)"

definition sort_pairs :: "(string \<times> jsval) list \<Rightarrow> (string \<times> jsval) list" where
  "sort_pairs kvs = foldr insert_pair kvs []"

text \<open>The value that is read back from a \<^verbatim>\<open>jsonb\<close> column into which \<open>v\<close> was written.\<close>

fun jsonb_value :: "jsval \<Rightarrow> jsval" where
  "jsonb_value Undefined = Null"
| "jsonb_value (Num n) = (case n of Fin q \<Rightarrow> Num (Fin q) | _ \<Rightarrow> Null)"
| "jsonb_value (Arr xs) = Arr (map jsonb_value xs)"
| "jsonb_value (Obj kvs) =
     Obj (sort_pairs (map (\<lambda>(k, v). (k, jsonb_value v)) (filter (\<lambda>(k, v). v \<noteq> Undefined) kvs)))"
| "jsonb_value v = v"

text \<open>
  The store refuses a text, and a JSON string or key, that contains the character with
  code 0.
\<close>

definition no_nul :: "string \<Rightarrow> bool" where
  "no_nul s = (CHR 0x00 \<notin> set s)"

fun json_no_nul :: "jsval \<Rightarrow> bool" where
  "json_no_nul (Str s) = no_nul s"
| "json_no_nul (Arr xs) = list_all json_no_nul xs"
| "json_no_nul (Obj kvs) = list_all (\<lambda>(k, v). no_nul k \<and> json_no_nul v) kvs"
| "json_no_nul v = True"

text \<open>
  A JSON value, as a request body holds it: no \<^verbatim>\<open>undefined\<close>, no \<^verbatim>\<open>NaN\<close>, no infinity, and
  every key of an object once.
\<close>

fun json_value :: "jsval \<Rightarrow> bool" where
  "json_value Undefined = False"
| "json_value (Num n) = (case n of Fin q \<Rightarrow> True | _ \<Rightarrow> False)"
| "json_value (Arr xs) = list_all json_value xs"
| "json_value (Obj kvs) = (distinct (map fst kvs) \<and> list_all (\<lambda>(k, v). json_value v) kvs)"
| "json_value v = True"

text \<open>
  Equality of JSON values: arrays are equal element by element in order, objects are
  equal when they have the same keys with equal values, in whatever order the keys
  stand.
\<close>

fun json_equal :: "jsval \<Rightarrow> jsval \<Rightarrow> bool" where
  "json_equal (Arr xs) (Arr ys) = list_all2 json_equal xs ys"
| "json_equal (Obj a) (Obj b) =
     (list_all (\<lambda>(k, v). case map_of b k of None \<Rightarrow> False | Some w \<Rightarrow> json_equal v w) a
      \<and> list_all (\<lambda>(k, w). map_of a k \<noteq> None) b)"
| "json_equal v w = (v = w)"

subsection \<open>Inserting a row\<close>

text \<open>
  \<^verbatim>\<open>db.insert(table).values(vals).returning()\<close>, as the integration tests use it: a column
  that \<open>vals\<close> leaves out takes its default (the next value of the sequence for a serial
  column, the current time for \<^verbatim>\<open>defaultNow\<close>, \<^verbatim>\<open>NULL\<close> without a default); the statement
  fails on a \<^verbatim>\<open>NULL\<close> in a \<^verbatim>\<open>NOT NULL\<close> column and on a value that is not of the column's
  type. A 4-byte integer column holds \<open>-2^31 .. 2^31 - 1\<close>; an enum column holds one of
  the labels of its enum; a \<^verbatim>\<open>jsonb\<close> column holds the normal form of the value it is
  given. A property that is \<^verbatim>\<open>undefined\<close> in the values of the source is a key that
  \<open>vals\<close> leaves out.
\<close>

type_synonym row = "(string \<times> sqlval) list"

datatype db_error =
    NotNullViolation string
  | InvalidValue string
  | UniqueViolation string
  | ForeignKeyViolation string

definition int4 :: "int \<Rightarrow> bool" where
  "int4 i = (- (2 ^ 31) \<le> i \<and> i < 2 ^ 31)"

fun conforms :: "coltype \<Rightarrow> sqlval \<Rightarrow> bool" where
  "conforms PgSerial v = (case v of SqlInt i \<Rightarrow> int4 i | _ \<Rightarrow> False)"
| "conforms PgInteger v = (case v of SqlInt i \<Rightarrow> int4 i | _ \<Rightarrow> False)"
| "conforms PgText v = (case v of SqlText s \<Rightarrow> no_nul s | _ \<Rightarrow> False)"
| "conforms PgTimestamp v = (case v of SqlTimestamp t \<Rightarrow> True | _ \<Rightarrow> False)"
| "conforms (PgEnum labels) v = (case v of SqlText s \<Rightarrow> s \<in> set labels | _ \<Rightarrow> False)"
| "conforms PgJsonb v =
     (case v of SqlJson j \<Rightarrow> j \<noteq> Undefined \<and> json_no_nul (jsonb_value j) | _ \<Rightarrow> False)"
| "conforms (PgArray t) v =
     (case v of SqlTextArray ts \<Rightarrow> t = PgText \<and> list_all no_nul ts | _ \<Rightarrow> False)"

definition column_value :: "int \<Rightarrow> int \<Rightarrow> column \<Rightarrow> sqlval option \<Rightarrow> sqlval" where
  "column_value nextid now c supplied =
     (case supplied of
        Some v \<Rightarrow> v
      | None \<Rightarrow>
          (case col_default c of
             NoDefault \<Rightarrow> SqlNull
           | DefaultValue d \<Rightarrow> d
           | DefaultNow \<Rightarrow> SqlTimestamp now
           | NextVal \<Rightarrow> SqlInt nextid))"

text \<open>The value that the row holds for a value written to a column of type \<open>t\<close>.\<close>

definition stored_value :: "coltype \<Rightarrow> sqlval \<Rightarrow> sqlval" where
  "stored_value t v =
     (if t = PgJsonb then (case v of SqlJson j \<Rightarrow> SqlJson (jsonb_value j) | _ \<Rightarrow> v) else v)"

fun build_row :: "(string \<times> column) list \<Rightarrow> int \<Rightarrow> int \<Rightarrow> (string \<times> sqlval) list
    \<Rightarrow> db_error + row" where
  "build_row [] nextid now vals = Inr []"
| "build_row ((k, c) # cols) nextid now vals =
     (let v = column_value nextid now c (map_of vals k)
      in if v = SqlNull \<and> col_notNull c then Inl (NotNullViolation k)
         else if v \<noteq> SqlNull \<and> \<not> conforms (col_type c) v then Inl (InvalidValue k)
         else case build_row cols nextid now vals of
                Inl e \<Rightarrow> Inl e
              | Inr r \<Rightarrow> Inr ((k, stored_value (col_type c) v) # r))"

record db =
  matches_rows :: "row list"
  commentary_rows :: "row list"
  matches_id_seq :: int
  commentary_id_seq :: int

definition empty_db :: db where
  "empty_db = \<lparr>matches_rows = [], commentary_rows = [], matches_id_seq = 1,
                commentary_id_seq = 1\<rparr>"

definition has_id :: "sqlval \<Rightarrow> row \<Rightarrow> bool" where
  "has_id i r = (map_of r ''id'' = Some i)"

definition insert_matches :: "int \<Rightarrow> (string \<times> sqlval) list \<Rightarrow> db \<Rightarrow> (db_error + row) \<times> db" where
  "insert_matches now vals d =
     (case build_row (tableColumns matches) (matches_id_seq d) now vals of
        Inl e \<Rightarrow> (Inl e, d)
      | Inr r \<Rightarrow>
          if list_ex (\<lambda>r'. map_of r' ''id'' = map_of r ''id'') (matches_rows d)
          then (Inl (UniqueViolation ''id''), d)
          else (Inr r,
                d\<lparr>matches_rows := matches_rows d @ [r],
                  matches_id_seq :=
                    (if map_of vals ''id'' = None then matches_id_seq d + 1
                     else matches_id_seq d)\<rparr>))"

text \<open>
  The commentary table declares a foreign key from \<^verbatim>\<open>matchId\<close> to the \<^verbatim>\<open>id\<close> of
  \<^verbatim>\<open>matches\<close>: a row is inserted only when a match with that id exists.
\<close>

definition insert_commentary :: "int \<Rightarrow> (string \<times> sqlval) list \<Rightarrow> db \<Rightarrow> (db_error + row) \<times> db" where
  "insert_commentary now vals d =
     (case build_row (tableColumns commentary) (commentary_id_seq d) now vals of
        Inl e \<Rightarrow> (Inl e, d)
      | Inr r \<Rightarrow>
          if list_ex (\<lambda>r'. map_of r' ''id'' = map_of r ''id'') (commentary_rows d)
          then (Inl (UniqueViolation ''id''), d)
          else if \<not> list_ex (\<lambda>m. map_of m ''id'' = map_of r ''matchId'') (matches_rows d)
          then (Inl (ForeignKeyViolation ''matchId''), d)
          else (Inr r,
                d\<lparr>commentary_rows := commentary_rows d @ [r],
                  commentary_id_seq :=
                    (if map_of vals ''id'' = None then commentary_id_seq d + 1
                     else commentary_id_seq d)\<rparr>))"


section \<open>Storage operations and routes\<close>

text \<open>
  Modelled from the spec: the storage operations of section 4.2. The module
  \<^verbatim>\<open>routes/matches.js\<close> that \<^verbatim>\<open>index.js\<close> imports is not among the source files, so each
  operation is the single statement the spec describes, on the tables of
  \<^verbatim>\<open>src/db/schema.js\<close>. \<open>createMatch\<close> inserts the fields it is given.
\<close>

definition createMatch :: "int \<Rightarrow> (string \<times> sqlval) list \<Rightarrow> db \<Rightarrow> (db_error + row) \<times> db" where
  "createMatch now vals d = insert_matches now vals d"

text \<open>
  Modelled from the spec: the update of one field of a stored row, for
  \<^verbatim>\<open>updateMatchScore\<close>.
\<close>

definition set_field :: "string \<Rightarrow> sqlval \<Rightarrow> row \<Rightarrow> row" where
  "set_field k v r = map (\<lambda>(k', v'). if k' = k then (k', v) else (k', v')) r"

text \<open>
  Modelled from the spec: \<^verbatim>\<open>updateMatchScore(id, homeScore, awayScore) -> Match | NotFound\<close>
  sets the two scores of the match with that id; \<open>Inr None\<close> is NotFound.
\<close>

definition updateMatchScore :: "int \<Rightarrow> int \<Rightarrow> int \<Rightarrow> db \<Rightarrow> (db_error + row option) \<times> db" where
  "updateMatchScore i hs as d =
     (if \<not> conforms PgInteger (SqlInt hs) then (Inl (InvalidValue ''homeScore''), d)
      else if \<not> conforms PgInteger (SqlInt as) then (Inl (InvalidValue ''awayScore''), d)
      else let upd = (\<lambda>r. set_field ''awayScore'' (SqlInt as) (set_field ''homeScore'' (SqlInt hs) r))
           in case find (has_id (SqlInt i)) (matches_rows d) of
                None \<Rightarrow> (Inr None, d)
              | Some r \<Rightarrow>
                  (Inr (Some (upd r)),
                   d\<lparr>matches_rows :=
                       map (\<lambda>x. if has_id (SqlInt i) x then upd x else x) (matches_rows d)\<rparr>))"

text \<open>
  Modelled from the spec: \<^verbatim>\<open>deleteMatch(id) -> success | NotFound\<close>. The foreign key of
  the commentary table has no delete action, so a match with commentary is not deleted.
\<close>

definition deleteMatch :: "int \<Rightarrow> db \<Rightarrow> (db_error + bool) \<times> db" where
  "deleteMatch i d =
     (if \<not> list_ex (has_id (SqlInt i)) (matches_rows d) then (Inr False, d)
      else if list_ex (\<lambda>c. map_of c ''matchId'' = Some (SqlInt i)) (commentary_rows d)
      then (Inl (ForeignKeyViolation ''matchId''), d)
      else (Inr True, d\<lparr>matches_rows := filter (\<lambda>r. \<not> has_id (SqlInt i) r) (matches_rows d)\<rparr>))"

text \<open>
  Modelled from the spec: \<^verbatim>\<open>listMatches(limit?) -> Match[]\<close> returns the matches,
  capped at \<open>limit\<close> when one is given.
\<close>

definition listMatches :: "int option \<Rightarrow> db \<Rightarrow> row list" where
  "listMatches limit d =
     (case limit of None \<Rightarrow> matches_rows d | Some n \<Rightarrow> take (nat n) (matches_rows d))"

text \<open>
  Modelled from the spec: \<^verbatim>\<open>getMatch(id) -> Match | NotFound\<close>;
  \<open>None\<close> is NotFound.
\<close>

definition getMatch :: "int \<Rightarrow> db \<Rightarrow> row option" where
  "getMatch i d = find (has_id (SqlInt i)) (matches_rows d)"

text \<open>
  Modelled from the spec: \<^verbatim>\<open>addCommentary(matchId, fields) -> Commentary\<close> inserts one
  commentary row for the match and fails if no match has that id. The \<^verbatim>\<open>metadata\<close>
  payload is opaque to the system: it goes to the \<^verbatim>\<open>jsonb\<close> column as it is given.
\<close>

definition addCommentary :: "int \<Rightarrow> int \<Rightarrow> (string \<times> sqlval) list \<Rightarrow> db \<Rightarrow> (db_error + row) \<times> db" where
  "addCommentary now matchId vals d =
     insert_commentary now ((''matchId'', SqlInt matchId) # vals) d"

text \<open>
  Modelled from the spec: \<^verbatim>\<open>listCommentary(matchId) ->
  Commentary[]\<close> reads the commentary rows of the match.
\<close>

definition listCommentary :: "int \<Rightarrow> db \<Rightarrow> row list" where
  "listCommentary matchId d =
     filter (\<lambda>c. map_of c ''matchId'' = Some (SqlInt matchId)) (commentary_rows d)"

text \<open>
  Modelled from the spec: the routing layer of section 4.3 maps a request to a
  validation step, with the schemas of \<^verbatim>\<open>src/validation/matches.js\<close>, followed by exactly
  one storage operation. The validated body of a create request becomes the fields of
  the new match: strings as text, the two times as timestamps, the scores as integers;
  a key that is absent from the validated data is left out.
\<close>

text \<open>
  Modelled from the spec: the outcome of a request, as section 7 names the kinds:
  success with the rows returned, a validation error with its issues, a missing
  resource, an error of the store.
\<close>

datatype response =
    Success "row list"
  | ValidationError "issue list"
  | NotFoundError
  | StoreError db_error

text \<open>
  Modelled from the spec: the field of a new match that one property of the validated
  create body becomes.
\<close>

fun match_field :: "(string \<Rightarrow> int option) \<Rightarrow> string \<times> jsval \<Rightarrow> (string \<times> sqlval) list" where
  "match_field host (k, Str s) =
     (if k = ''startTime'' \<or> k = ''endTime'' then
        (case Date_parse host (Str s) of
           None \<Rightarrow> [(k, SqlNull)]
         | Some t \<Rightarrow> [(k, SqlTimestamp t)])
      else [(k, SqlText s)])"
| "match_field host (k, Num (Fin q)) = [(k, SqlInt \<lfloor>q\<rfloor>)]"
| "match_field host (k, v) = []"

text \<open>
  Modelled from the spec: the fields of a new match, from the validated create body.
\<close>

definition match_fields :: "(string \<Rightarrow> int option) \<Rightarrow> jsval \<Rightarrow> (string \<times> sqlval) list" where
  "match_fields host data =
     (case data of Obj kvs \<Rightarrow> concat (map (match_field host) kvs) | _ \<Rightarrow> [])"

text \<open>
  Modelled from the spec: the integer that a property of validated data holds, for
  \<^verbatim>\<open>id\<close>, \<^verbatim>\<open>limit\<close> and the scores.
\<close>

definition int_prop :: "jsval \<Rightarrow> string \<Rightarrow> int option" where
  "int_prop data k =
     (case data of
        Obj kvs \<Rightarrow> (case getprop kvs k of Num (Fin q) \<Rightarrow> Some \<lfloor>q\<rfloor> | _ \<Rightarrow> None)
      | _ \<Rightarrow> None)"

text \<open>
  Modelled from the spec: the response for the result of an insertion.
\<close>

definition store_result :: "(db_error + row) \<times> db \<Rightarrow> response \<times> db" where
  "store_result x =
     (case x of (Inl e, d) \<Rightarrow> (StoreError e, d) | (Inr r, d) \<Rightarrow> (Success [r], d))"

text \<open>
  Modelled from the spec: \<^verbatim>\<open>GET /matches?limit=\<close> validates the
  query and lists the matches.
\<close>

definition get_matches :: "jsval \<Rightarrow> db \<Rightarrow> response \<times> db" where
  "get_matches query d =
     (case safeParse listMatchesQuerySchema query of
        Inl is \<Rightarrow> (ValidationError is, d)
      | Inr data \<Rightarrow> (Success (listMatches (int_prop data ''limit'') d), d))"

text \<open>
  Modelled from the spec: the validation of the \<^verbatim>\<open>:id\<close> parameter
  that the routes of one match share.
\<close>

definition with_id :: "jsval \<Rightarrow> db \<Rightarrow> (int \<Rightarrow> response \<times> db) \<Rightarrow> response \<times> db" where
  "with_id params d f =
     (case safeParse matchIdParamSchema params of
        Inl is \<Rightarrow> (ValidationError is, d)
      | Inr data \<Rightarrow> (case int_prop data ''id'' of None \<Rightarrow> (ValidationError [], d) | Some i \<Rightarrow> f i))"

text \<open>
  Modelled from the spec: \<^verbatim>\<open>GET /matches/:id\<close>.
\<close>

definition get_match :: "jsval \<Rightarrow> db \<Rightarrow> response \<times> db" where
  "get_match params d =
     with_id params d
       (\<lambda>i. case getMatch i d of None \<Rightarrow> (NotFoundError, d) | Some r \<Rightarrow> (Success [r], d))"

text \<open>
  Modelled from the spec: \<^verbatim>\<open>POST /matches\<close> validates the body
  with the create schema and creates the match.
\<close>

definition post_matches :: "(string \<Rightarrow> int option) \<Rightarrow> int \<Rightarrow> jsval \<Rightarrow> db \<Rightarrow> response \<times> db" where
  "post_matches host now body d =
     (case safeParse (createMatchSchema host) body of
        Inl is \<Rightarrow> (ValidationError is, d)
      | Inr data \<Rightarrow> store_result (createMatch now (match_fields host data) d))"

text \<open>
  Modelled from the spec: \<^verbatim>\<open>PATCH /matches/:id/score\<close> validates
  the parameter and the body with the score schema and updates the two scores.
\<close>

definition patch_match_score :: "jsval \<Rightarrow> jsval \<Rightarrow> db \<Rightarrow> response \<times> db" where
  "patch_match_score params body d =
     with_id params d
       (\<lambda>i. case safeParse updateScoreSchema body of
               Inl is \<Rightarrow> (ValidationError is, d)
             | Inr data \<Rightarrow>
                 (case (int_prop data ''homeScore'', int_prop data ''awayScore'') of
                    (Some hs, Some as) \<Rightarrow>
                      (case updateMatchScore i hs as d of
                         (Inl e, d') \<Rightarrow> (StoreError e, d')
                       | (Inr None, d') \<Rightarrow> (NotFoundError, d')
                       | (Inr (Some r), d') \<Rightarrow> (Success [r], d'))
                  | _ \<Rightarrow> (ValidationError [], d)))"

text \<open>
  Modelled from the spec: \<^verbatim>\<open>DELETE /matches/:id\<close>.
\<close>

definition delete_match :: "jsval \<Rightarrow> db \<Rightarrow> response \<times> db" where
  "delete_match params d =
     with_id params d
       (\<lambda>i. case deleteMatch i d of
               (Inl e, d') \<Rightarrow> (StoreError e, d')
             | (Inr False, d') \<Rightarrow> (NotFoundError, d')
             | (Inr True, d') \<Rightarrow> (Success [], d'))"

text \<open>
  Modelled from the spec: \<^verbatim>\<open>POST /matches/:id/commentary\<close>; the
  source has no schema for the body, so the operation takes the fields of the entry.
\<close>

definition post_commentary :: "int \<Rightarrow> jsval \<Rightarrow> (string \<times> sqlval) list \<Rightarrow> db \<Rightarrow> response \<times> db" where
  "post_commentary now params vals d =
     with_id params d (\<lambda>i. store_result (addCommentary now i vals d))"

text \<open>
  Modelled from the spec: \<^verbatim>\<open>GET /matches/:id/commentary\<close>.
\<close>

definition get_commentary :: "jsval \<Rightarrow> db \<Rightarrow> response \<times> db" where
  "get_commentary params d = with_id params d (\<lambda>i. (Success (listCommentary i d), d))"

text \<open>
  Modelled from the spec: the requests of section 6, each with its parameters, query or
  body.
\<close>

datatype operation =
    ListMatches jsval
  | GetMatch jsval
  | CreateMatch jsval
  | UpdateMatchScore jsval jsval
  | DeleteMatch jsval
  | AddCommentary jsval "(string \<times> sqlval) list"
  | ListCommentary jsval

text \<open>
  Modelled from the spec: a request is dispatched to its route; the result is the
  response and the tables afterwards.
\<close>

fun perform :: "(string \<Rightarrow> int option) \<Rightarrow> int \<Rightarrow> operation \<Rightarrow> db \<Rightarrow> response \<times> db" where
  "perform host now (ListMatches query) d = get_matches query d"
| "perform host now (GetMatch params) d = get_match params d"
| "perform host now (CreateMatch body) d = post_matches host now body d"
| "perform host now (UpdateMatchScore params body) d = patch_match_score params body d"
| "perform host now (DeleteMatch params) d = delete_match params d"
| "perform host now (AddCommentary params vals) d = post_commentary now params vals d"
| "perform host now (ListCommentary params) d = get_commentary params d"

text \<open>
  Modelled from the spec: the invariant of a match that section 3 states, on the stored
  rows. The status is one of the three enumerated values; the scores are not negative.
\<close>

definition status_ok :: "row \<Rightarrow> bool" where
  "status_ok r =
     (case map_of r ''status'' of
        Some (SqlText s) \<Rightarrow> s \<in> {''scheduled'', ''live'', ''finished''}
      | _ \<Rightarrow> False)"

definition score_ok :: "string \<Rightarrow> row \<Rightarrow> bool" where
  "score_ok k r = (case map_of r k of Some (SqlInt n) \<Rightarrow> 0 \<le> n | _ \<Rightarrow> False)"

definition match_ok :: "row \<Rightarrow> bool" where
  "match_ok r = (status_ok r \<and> score_ok ''homeScore'' r \<and> score_ok ''awayScore'' r)"

definition matches_ok :: "db \<Rightarrow> bool" where
  "matches_ok d = list_all match_ok (matches_rows d)"


section \<open>Properties of the schema library\<close>

lemma value_runChecks: "value (runChecks chs p) = value p"
  by (induction chs arbitrary: p) auto

lemma aborted_Nil: "aborted [] = False"
  by (simp add: aborted_def)

lemma aborted_append: "aborted (xs @ ys) = (aborted xs \<or> aborted ys)"
  by (auto simp: aborted_def list_ex_iff)

lemma aborted_Cons: "aborted (i # is) = (\<not> continue i \<or> aborted is)"
  by (auto simp: aborted_def)

lemma aborted_prefixIssues: "aborted (prefixIssues k is) = aborted is"
  by (induction "is") (auto simp: aborted_def prefixIssues_def)

lemma prefixIssues_Nil_iff: "(prefixIssues k is = []) = (is = [])"
  by (simp add: prefixIssues_def)

lemmas aborted_simps = aborted_Nil aborted_append aborted_Cons aborted_prefixIssues

lemmas check_defs = z_int_def z_positive_def z_min_def z_max_def z_greater_def z_less_def
  datetime_check_def superRefine_def plain_check_def

lemma isInteger_iff: "isInteger q = (\<exists>n. q = of_int n)"
  unfolding isInteger_def by (metis floor_of_int)

lemma isSafeInteger_of_int:
  "isSafeInteger (of_int n) = (- MAX_SAFE_INTEGER \<le> n \<and> n \<le> MAX_SAFE_INTEGER)"
  unfolding isSafeInteger_def isInteger_def MIN_SAFE_INTEGER_def MAX_SAFE_INTEGER_def
  by (simp flip: of_int_minus) 

lemma int_format_of_int:
  "int_format \<lparr>value = Num (Fin (of_int n)), issues = is\<rparr> =
     (if n > MAX_SAFE_INTEGER then
        [\<lparr>code = too_big ''int'' MAX_SAFE_INTEGER False, path = [], message = None, continue = True\<rparr>]
      else if n < - MAX_SAFE_INTEGER then
        [\<lparr>code = too_small ''int'' MIN_SAFE_INTEGER False, path = [], message = None, continue = True\<rparr>]
      else [])"
  unfolding int_format_def
  by (auto simp: isSafeInteger_of_int isInteger_iff MAX_SAFE_INTEGER_def)

lemma int_format_not_integer:
  "\<not> isInteger q \<Longrightarrow> int_format \<lparr>value = Num (Fin q), issues = is\<rparr> =
     [\<lparr>code = invalid_type ''int'', path = [], message = None, continue = False\<rparr>]"
  unfolding int_format_def by simp

lemma limit_schema_ok:
  "(issues (z_coerce_number [z_int, z_positive, z_max 100] v) = []) =
   (\<exists>n. Number v = Fin (of_int n) \<and> 1 \<le> n \<and> n \<le> 100)"
proof (cases "Number v")
  case (Fin q)
  show ?thesis
  proof (cases "isInteger q")
    case True
    then obtain n where q: "q = of_int n" by (auto simp: isInteger_iff)
    show ?thesis using Fin q
      by (auto simp: z_coerce_number_def check_defs int_format_of_int aborted_simps z_positive_def z_max_def
          z_greater_def greater_than_def z_less_def less_than_def MAX_SAFE_INTEGER_def)
  next
    case False
    then show ?thesis using Fin
      by (auto simp: z_coerce_number_def check_defs int_format_not_integer aborted_simps isInteger_iff)
  qed
qed (auto simp: z_coerce_number_def type_issue_def aborted_simps)


lemma optional_issues:
  "issues (optional s v) = (if v = Undefined then [] else issues (s v))"
  by (simp add: optional_def)

lemma optional_value:
  "value (optional s v) = (if v = Undefined then Undefined else value (s v))"
  by (simp add: optional_def)

lemma value_z_coerce_number: "value (z_coerce_number chs v) = Num (Number v)"
  by (simp add: z_coerce_number_def Let_def value_runChecks)

lemma getprop_None: "map_of q k = None \<Longrightarrow> getprop q k = Undefined"
  by (simp add: getprop_def)

lemma safeParse_single:
  "safeParse (z_object [(k, s)] []) (Obj q) =
     (if issues (s (getprop q k)) = []
      then Inr (Obj (if value (s (getprop q k)) = Undefined \<and> map_of q k = None then []
                     else [(k, value (s (getprop q k)))]))
      else Inl (prefixIssues k (issues (s (getprop q k)))))"
  by (simp add: safeParse_def z_object_def Let_def prefixIssues_def)

subsection \<open>The list query\<close>

text \<open>
  Claim C3. The query schema of the match list accepts a query without \<^verbatim>\<open>limit\<close>, accepts
  every \<^verbatim>\<open>limit\<close> that \<^verbatim>\<open>Number\<close> turns into an integer from 1 to 100 (and yields that
  integer), rejects every \<^verbatim>\<open>limit\<close> that \<^verbatim>\<open>Number\<close> turns into an integer outside that
  range, and rejects \<^verbatim>\<open>limit=101\<close> with the single issue \<^verbatim>\<open>too_big\<close>, maximum 100
  inclusive, at the path \<^verbatim>\<open>limit\<close>.
\<close>

theorem listMatchesQuerySchema_limit:
  "(map_of q ''limit'' = None \<longrightarrow> safeParse listMatchesQuerySchema (Obj q) = Inr (Obj []))
   \<and> (\<forall>n. Number (getprop q ''limit'') = Fin (of_int n) \<and> 1 \<le> n \<and> n \<le> 100
        \<longrightarrow> safeParse listMatchesQuerySchema (Obj q) = Inr (Obj [(''limit'', Num (Fin (of_int n)))]))
   \<and> (\<forall>n. Number (getprop q ''limit'') = Fin (of_int n) \<and> (n < 1 \<or> 100 < n)
        \<longrightarrow> \<not> success (safeParse listMatchesQuerySchema (Obj q)))
   \<and> safeParse listMatchesQuerySchema (Obj [(''limit'', Str ''101'')]) =
       Inl [\<lparr>code = too_big ''number'' 100 True, path = [''limit''], message = None,
             continue = True\<rparr>]"
proof (intro conjI allI impI)
  assume "map_of q ''limit'' = None"
  then show "safeParse listMatchesQuerySchema (Obj q) = Inr (Obj [])"
    by (simp add: listMatchesQuerySchema_def safeParse_single getprop_None optional_issues
        optional_value)
next
  fix n
  assume h: "Number (getprop q ''limit'') = Fin (of_int n) \<and> 1 \<le> n \<and> n \<le> 100"
  then have "getprop q ''limit'' \<noteq> Undefined" by auto
  moreover from h have "issues (z_coerce_number [z_int, z_positive, z_max 100] (getprop q ''limit'')) = []"
    unfolding limit_schema_ok by blast
  ultimately show "safeParse listMatchesQuerySchema (Obj q) = Inr (Obj [(''limit'', Num (Fin (of_int n)))])"
    using h
    by (simp add: listMatchesQuerySchema_def safeParse_single optional_issues optional_value
        value_z_coerce_number)
next
  fix n
  assume h: "Number (getprop q ''limit'') = Fin (of_int n) \<and> (n < 1 \<or> 100 < n)"
  then have "getprop q ''limit'' \<noteq> Undefined" by auto
  moreover from h have "issues (z_coerce_number [z_int, z_positive, z_max 100] (getprop q ''limit'')) \<noteq> []"
    unfolding limit_schema_ok by auto
  ultimately show "\<not> success (safeParse listMatchesQuerySchema (Obj q))"
    by (simp add: listMatchesQuerySchema_def safeParse_single optional_issues success_def)
next
  show "safeParse listMatchesQuerySchema (Obj [(''limit'', Str ''101'')]) =
       Inl [\<lparr>code = too_big ''number'' 100 True, path = [''limit''], message = None,
             continue = True\<rparr>]"
    by code_simp
qed

text \<open>
  The theorem at the queries \<^verbatim>\<open>limit=50\<close> (accepted, 50), the empty query (accepted) and
  \<^verbatim>\<open>limit=0\<close> (rejected).
\<close>

theorem listMatchesQuerySchema_limit_witness:
  "Number (getprop [(''limit'', Str ''50'')] ''limit'') = Fin (of_int 50)
   \<and> (1::int) \<le> 50 \<and> (50::int) \<le> 100
   \<and> safeParse listMatchesQuerySchema (Obj [(''limit'', Str ''50'')]) =
       Inr (Obj [(''limit'', Num (Fin (of_int 50)))])
   \<and> map_of ([] :: (string \<times> jsval) list) ''limit'' = None
   \<and> safeParse listMatchesQuerySchema (Obj []) = Inr (Obj [])
   \<and> Number (getprop [(''limit'', Str ''0'')] ''limit'') = Fin (of_int 0)
   \<and> \<not> success (safeParse listMatchesQuerySchema (Obj [(''limit'', Str ''0'')]))"
proof -
  have h: "Number (getprop [(''limit'', Str ''50'')] ''limit'') = Fin (of_int 50)
      \<and> (1::int) \<le> 50 \<and> (50::int) \<le> 100"
    by code_simp
  have e: "map_of ([] :: (string \<times> jsval) list) ''limit'' = None"
    by simp
  have z: "Number (getprop [(''limit'', Str ''0'')] ''limit'') = Fin (of_int 0) \<and> ((0::int) < 1 \<or> (100::int) < 0)"
    by code_simp
  from h e z listMatchesQuerySchema_limit [of "[(''limit'', Str ''50'')]"]
    listMatchesQuerySchema_limit [of "[]"]
    listMatchesQuerySchema_limit [of "[(''limit'', Str ''0'')]"]
  show ?thesis by blast
qed


lemma id_schema_ok:
  "(issues (z_coerce_number [z_int, z_positive] v) = []) =
   (\<exists>n. Number v = Fin (of_int n) \<and> 1 \<le> n \<and> n \<le> MAX_SAFE_INTEGER)"
proof (cases "Number v")
  case (Fin q)
  show ?thesis
  proof (cases "isInteger q")
    case True
    then obtain n where q: "q = of_int n" by (auto simp: isInteger_iff)
    show ?thesis using Fin q
      by (auto simp: z_coerce_number_def check_defs int_format_of_int aborted_simps z_positive_def
          z_greater_def greater_than_def MAX_SAFE_INTEGER_def)
  next
    case False
    then show ?thesis using Fin
      by (auto simp: z_coerce_number_def check_defs int_format_not_integer aborted_simps isInteger_iff)
  qed
qed (auto simp: z_coerce_number_def type_issue_def aborted_simps)

lemma score_schema_ok:
  "(issues (z_coerce_number [z_int, z_min 0] v) = []) =
   (\<exists>n. Number v = Fin (of_int n) \<and> 0 \<le> n \<and> n \<le> MAX_SAFE_INTEGER)"
proof (cases "Number v")
  case (Fin q)
  show ?thesis
  proof (cases "isInteger q")
    case True
    then obtain n where q: "q = of_int n" by (auto simp: isInteger_iff)
    show ?thesis using Fin q
      by (auto simp: z_coerce_number_def check_defs int_format_of_int aborted_simps z_min_def
          z_greater_def greater_than_def MAX_SAFE_INTEGER_def)
  next
    case False
    then show ?thesis using Fin
      by (auto simp: z_coerce_number_def check_defs int_format_not_integer aborted_simps isInteger_iff)
  qed
qed (auto simp: z_coerce_number_def type_issue_def aborted_simps)

lemma safeParse_object_no_checks:
  "safeParse (z_object shape []) (Obj q) =
     (if snd (parse_shape shape q) = [] then Inr (Obj (fst (parse_shape shape q)))
      else Inl (snd (parse_shape shape q)))"
  by (simp add: safeParse_def z_object_def Let_def split: prod.splits)

subsection \<open>The id parameter\<close>

text \<open>
  Claim C5, as amended. The parameter schema accepts exactly the params whose \<^verbatim>\<open>id\<close> is
  turned by \<^verbatim>\<open>Number\<close> into an integer from 1 to \<open>2^53 - 1\<close>, the largest safe integer:
  \<^verbatim>\<open>.int()\<close> admits safe integers only. Every other \<^verbatim>\<open>id\<close> fails: 0, a negative
  number, a string that is no number, a fraction, an integer beyond the safe range.
\<close>

theorem matchIdParamSchema_accepts:
  "success (safeParse matchIdParamSchema (Obj params)) =
     (\<exists>n. Number (getprop params ''id'') = Fin (of_int n) \<and> 1 \<le> n \<and> n \<le> MAX_SAFE_INTEGER)"
  unfolding id_schema_ok [symmetric]
  by (simp add: matchIdParamSchema_def safeParse_single success_def prefixIssues_Nil_iff)

text \<open>The theorem at the ids \<^verbatim>\<open>"7"\<close> (accepted), \<^verbatim>\<open>"0"\<close>, \<^verbatim>\<open>"-3"\<close> and \<^verbatim>\<open>"abc"\<close> (rejected).\<close>

theorem matchIdParamSchema_accepts_witness:
  "success (safeParse matchIdParamSchema (Obj [(''id'', Str ''7'')]))
   \<and> \<not> success (safeParse matchIdParamSchema (Obj [(''id'', Str ''0'')]))
   \<and> \<not> success (safeParse matchIdParamSchema (Obj [(''id'', Str ''-3'')]))
   \<and> \<not> success (safeParse matchIdParamSchema (Obj [(''id'', Str ''abc'')]))"
proof -
  have a: "Number (getprop [(''id'', Str ''7'')] ''id'') = Fin (of_int 7)
           \<and> (1::int) \<le> 7 \<and> 7 \<le> MAX_SAFE_INTEGER"
    by code_simp
  have b: "Number (getprop [(''id'', Str ''0'')] ''id'') = Fin (of_int 0)"
    by code_simp
  have c: "Number (getprop [(''id'', Str ''-3'')] ''id'') = Fin (of_int (- 3))"
    by code_simp
  have d: "Number (getprop [(''id'', Str ''abc'')] ''id'') = NaN"
    by code_simp
  have 1: "success (safeParse matchIdParamSchema (Obj [(''id'', Str ''7'')]))"
    unfolding matchIdParamSchema_accepts using a by blast
  have 2: "\<not> success (safeParse matchIdParamSchema (Obj [(''id'', Str ''0'')]))"
    unfolding matchIdParamSchema_accepts b by simp
  have 3: "\<not> success (safeParse matchIdParamSchema (Obj [(''id'', Str ''-3'')]))"
    unfolding matchIdParamSchema_accepts c by simp
  have 4: "\<not> success (safeParse matchIdParamSchema (Obj [(''id'', Str ''abc'')]))"
    unfolding matchIdParamSchema_accepts d by simp
  from 1 2 3 4 show ?thesis by blast
qed

text \<open>
  The claim as first stated, that every \<^verbatim>\<open>id\<close> turned into a positive integer is accepted,
  fails at \<^verbatim>\<open>"9007199254740992"\<close>: \<^verbatim>\<open>Number\<close> gives the positive integer \<open>2^53\<close>, and the
  schema rejects it with \<^verbatim>\<open>too_big\<close>.
\<close>

theorem matchIdParamSchema_counterexample:
  "Number (getprop [(''id'', Str ''9007199254740992'')] ''id'') = Fin (of_int 9007199254740992)
   \<and> (1::int) \<le> 9007199254740992
   \<and> safeParse matchIdParamSchema (Obj [(''id'', Str ''9007199254740992'')]) =
       Inl [\<lparr>code = too_big ''int'' 9007199254740991 False, path = [''id''], message = None,
             continue = True\<rparr>]"
  by code_simp

subsection \<open>The score update\<close>

text \<open>
  Claim C10, as amended. The score schema converts \<^verbatim>\<open>homeScore\<close> and \<^verbatim>\<open>awayScore\<close> with
  \<^verbatim>\<open>Number\<close> before it checks them. When both become integers from 0 to \<open>2^53 - 1\<close> the
  body is accepted and the data holds the converted integers, whatever the JSON values
  were (the string \<^verbatim>\<open>"3"\<close>, the boolean \<^verbatim>\<open>true\<close>). When one of them becomes anything
  else (\<^verbatim>\<open>NaN\<close>, an infinity, a fraction, a negative number, an integer beyond the safe
  range) the body is rejected.
\<close>

theorem updateScoreSchema_coerces:
  "(\<forall>h a. Number (getprop body ''homeScore'') = Fin (of_int h) \<and> 0 \<le> h \<and> h \<le> MAX_SAFE_INTEGER
          \<and> Number (getprop body ''awayScore'') = Fin (of_int a) \<and> 0 \<le> a \<and> a \<le> MAX_SAFE_INTEGER
      \<longrightarrow> safeParse updateScoreSchema (Obj body) =
            Inr (Obj [(''homeScore'', Num (Fin (of_int h))), (''awayScore'', Num (Fin (of_int a)))]))
   \<and> (\<forall>k \<in> {''homeScore'', ''awayScore''}.
        (\<forall>n. Number (getprop body k) = Fin (of_int n) \<longrightarrow> n < 0 \<or> MAX_SAFE_INTEGER < n)
        \<longrightarrow> \<not> success (safeParse updateScoreSchema (Obj body)))"
proof (intro conjI allI impI ballI)
  fix h a
  assume h: "Number (getprop body ''homeScore'') = Fin (of_int h) \<and> 0 \<le> h \<and> h \<le> MAX_SAFE_INTEGER
          \<and> Number (getprop body ''awayScore'') = Fin (of_int a) \<and> 0 \<le> a \<and> a \<le> MAX_SAFE_INTEGER"
  then have "issues (z_coerce_number [z_int, z_min 0] (getprop body ''homeScore'')) = []"
    "issues (z_coerce_number [z_int, z_min 0] (getprop body ''awayScore'')) = []"
    unfolding score_schema_ok by blast+
  then show "safeParse updateScoreSchema (Obj body) =
            Inr (Obj [(''homeScore'', Num (Fin (of_int h))), (''awayScore'', Num (Fin (of_int a)))])"
    using h
    by (simp add: updateScoreSchema_def safeParse_object_no_checks Let_def
        value_z_coerce_number prefixIssues_Nil_iff)
next
  fix k
  assume k: "k \<in> {''homeScore'', ''awayScore''}"
    and n: "\<forall>n. Number (getprop body k) = Fin (of_int n) \<longrightarrow> n < 0 \<or> MAX_SAFE_INTEGER < n"
  from n have "issues (z_coerce_number [z_int, z_min 0] (getprop body k)) \<noteq> []"
    unfolding score_schema_ok by auto
  with k show "\<not> success (safeParse updateScoreSchema (Obj body))"
    by (auto simp: updateScoreSchema_def safeParse_object_no_checks Let_def success_def
        prefixIssues_Nil_iff split: prod.splits)
qed


lemma not_integer_Fin: "\<not> isInteger q \<Longrightarrow> Fin q \<noteq> Fin (of_int n)"
  by (auto simp: isInteger_iff)

text \<open>
  The theorem at \<^verbatim>\<open>{homeScore: "3", awayScore: true}\<close> (accepted, with 3 and 1) and at
  bodies with the scores \<^verbatim>\<open>"abc"\<close>, \<^verbatim>\<open>"-1"\<close> and \<^verbatim>\<open>"1.5"\<close> (rejected).
\<close>

theorem updateScoreSchema_coerces_witness:
  "safeParse updateScoreSchema (Obj [(''homeScore'', Str ''3''), (''awayScore'', Bool True)]) =
     Inr (Obj [(''homeScore'', Num (Fin (of_int 3))), (''awayScore'', Num (Fin (of_int 1)))])
   \<and> \<not> success (safeParse updateScoreSchema (Obj [(''homeScore'', Str ''abc''), (''awayScore'', Num (Fin 0))]))
   \<and> \<not> success (safeParse updateScoreSchema (Obj [(''homeScore'', Num (Fin 2)), (''awayScore'', Str ''-1'')]))
   \<and> \<not> success (safeParse updateScoreSchema (Obj [(''homeScore'', Str ''1.5''), (''awayScore'', Num (Fin 0))]))"
proof -
  let ?b1 = "[(''homeScore'', Str ''3''), (''awayScore'', Bool True)]"
  let ?b2 = "[(''homeScore'', Str ''abc''), (''awayScore'', Num (Fin 0))]"
  let ?b3 = "[(''homeScore'', Num (Fin 2)), (''awayScore'', Str ''-1'')]"
  let ?b4 = "[(''homeScore'', Str ''1.5''), (''awayScore'', Num (Fin 0))]"
  have a: "Number (getprop ?b1 ''homeScore'') = Fin (of_int 3) \<and> (0::int) \<le> 3 \<and> 3 \<le> MAX_SAFE_INTEGER
      \<and> Number (getprop ?b1 ''awayScore'') = Fin (of_int 1) \<and> (0::int) \<le> 1 \<and> 1 \<le> MAX_SAFE_INTEGER"
    by code_simp
  have 1: "safeParse updateScoreSchema (Obj ?b1) =
     Inr (Obj [(''homeScore'', Num (Fin (of_int 3))), (''awayScore'', Num (Fin (of_int 1)))])"
    using updateScoreSchema_coerces [of ?b1] a by blast
  have b: "Number (getprop ?b2 ''homeScore'') = NaN"
    by code_simp
  have 2: "\<not> success (safeParse updateScoreSchema (Obj ?b2))"
    using updateScoreSchema_coerces [of ?b2] b by auto
  have c: "Number (getprop ?b3 ''awayScore'') = Fin (of_int (- 1))"
    by code_simp
  have 3: "\<not> success (safeParse updateScoreSchema (Obj ?b3))"
    using updateScoreSchema_coerces [of ?b3] c by auto
  have d: "Number (getprop ?b4 ''homeScore'') = Fin (3 / 2)" "\<not> isInteger (3 / 2)"
    by code_simp+
  have 4: "\<not> success (safeParse updateScoreSchema (Obj ?b4))"
    using updateScoreSchema_coerces [of ?b4] d not_integer_Fin [of "3 / 2"] by auto
  from 1 2 3 4 show ?thesis by blast
qed

text \<open>
  The claim as first stated, that every value converted to a non-negative integer is
  accepted, fails at \<^verbatim>\<open>{homeScore: "1e21", awayScore: 0}\<close>: \<^verbatim>\<open>Number\<close> gives the
  non-negative integer \<open>10^21\<close>, and the schema rejects it with \<^verbatim>\<open>too_big\<close>.
\<close>

theorem updateScoreSchema_counterexample:
  "Number (getprop [(''homeScore'', Str ''1e21''), (''awayScore'', Num (Fin 0))] ''homeScore'') =
     Fin (of_int 1000000000000000000000)
   \<and> (0::int) \<le> 1000000000000000000000
   \<and> Number (getprop [(''homeScore'', Str ''1e21''), (''awayScore'', Num (Fin 0))] ''awayScore'') =
     Fin (of_int 0)
   \<and> safeParse updateScoreSchema (Obj [(''homeScore'', Str ''1e21''), (''awayScore'', Num (Fin 0))]) =
       Inl [\<lparr>code = too_big ''int'' 9007199254740991 False, path = [''homeScore''],
             message = None, continue = True\<rparr>]"
  by code_simp


subsection \<open>The create schema\<close>

lemma snd_parse_shape:
  "snd (parse_shape shape q) =
     concat (map (\<lambda>(k, s). prefixIssues k (issues (s (getprop q k)))) shape)"
  by (induction shape) (auto simp: Let_def split: prod.splits)

lemma fst_parse_shape_keys:
  "(k, v) \<in> set (fst (parse_shape shape q)) \<Longrightarrow> k \<in> fst ` set shape"
  by (induction shape) (auto simp: Let_def split: prod.splits if_splits)

lemma getprop_parse_shape:
  "distinct (map fst shape) \<Longrightarrow> (k, s) \<in> set shape \<Longrightarrow>
   getprop (fst (parse_shape shape q)) k = value (s (getprop q k))"
proof (induction shape)
  case Nil
  then show ?case by simp
next
  case (Cons a shape)
  obtain k' s' where a: "a = (k', s')" by (cases a)
  show ?case
  proof (cases "k' = k")
    case True
    with Cons.prems a have s: "s' = s"
      by (auto simp: rev_image_eqI)
    have "k \<notin> fst ` set (fst (parse_shape shape q))"
      using Cons.prems a True fst_parse_shape_keys [of k _ shape q] by auto
    then have "map_of (fst (parse_shape shape q)) k = None"
      by (simp add: map_of_eq_None_iff)
    then show ?thesis using a True s
      by (auto simp: Let_def getprop_def split: prod.splits option.splits)
  next
    case False
    with Cons a show ?thesis
      by (auto simp: Let_def getprop_def split: prod.splits)
  qed
qed

lemma parse_shape_issue_mem:
  "(k, s) \<in> set shape \<Longrightarrow> i \<in> set (issues (s (getprop q k))) \<Longrightarrow>
   i\<lparr>path := k # path i\<rparr> \<in> set (snd (parse_shape shape q))"
  unfolding snd_parse_shape by (force simp: prefixIssues_def)

lemma z_object_one_check:
  "z_object shape [plain_check f] (Obj q) =
     (let p = \<lparr>value = Obj (fst (parse_shape shape q)), issues = snd (parse_shape shape q)\<rparr>
      in if aborted (issues p) then p else p\<lparr>issues := issues p @ f p\<rparr>)"
  by (simp add: z_object_def plain_check_def Let_def split: prod.splits)

lemma required_string_ok:
  "(issues (z_string [z_min_length n msg] v) = []) = (\<exists>s. v = Str s \<and> n \<le> length s)"
  by (cases v)
     (auto simp: z_string_def z_min_length_def has_length_def min_length_def
       length_at_least_def type_issue_def)

lemma datetime_issues:
  "issues (z_iso_datetime v) =
     (case v of
        Str s \<Rightarrow> if datetime_pattern s then []
                 else [\<lparr>code = invalid_format ''datetime'', path = [], message = None, continue = True\<rparr>]
      | _ \<Rightarrow> [type_issue ''string''])"
  by (cases v)
     (auto simp: z_iso_datetime_def z_string_def check_defs datetime_format_def aborted_simps
       type_issue_def)

lemma value_z_string: "value (z_string chs v) = v"
  by (simp add: z_string_def value_runChecks)

lemma value_z_iso_datetime: "value (z_iso_datetime v) = v"
  by (simp add: z_iso_datetime_def value_z_string)

lemma distinct_createMatch_shape: "distinct (map fst createMatch_shape)"
  by (simp add: createMatch_shape_def)

lemma createMatch_data_times:
  "getprop (fst (parse_shape createMatch_shape q)) ''startTime'' = getprop q ''startTime''"
  "getprop (fst (parse_shape createMatch_shape q)) ''endTime'' = getprop q ''endTime''"
  using getprop_parse_shape [OF distinct_createMatch_shape, of _ z_iso_datetime q]
  by (simp_all add: createMatch_shape_def value_z_iso_datetime)

lemma createMatch_refine_input:
  "createMatch_refine host \<lparr>value = Obj (fst (parse_shape createMatch_shape q)), issues = is\<rparr> =
   createMatch_refine host \<lparr>value = Obj q, issues = []\<rparr>"
  by (simp add: createMatch_refine_def createMatch_data_times)

lemma createMatchSchema_issues:
  "issues (createMatchSchema host (Obj q)) =
     (let fis = snd (parse_shape createMatch_shape q)
      in if aborted fis then fis
         else fis @ createMatch_refine host \<lparr>value = Obj q, issues = []\<rparr>)"
  by (simp add: createMatchSchema_def superRefine_def z_object_one_check Let_def
      createMatch_refine_input)

lemma createMatchSchema_value:
  "value (createMatchSchema host (Obj q)) = Obj (fst (parse_shape createMatch_shape q))"
  by (simp add: createMatchSchema_def superRefine_def z_object_one_check Let_def)


lemma aborted_required_string:
  "aborted (issues (z_string [z_min_length n msg] v)) = (\<not> is_string v)"
  by (cases v)
     (auto simp: z_string_def z_min_length_def has_length_def min_length_def
       length_at_least_def aborted_simps type_issue_def is_string_def)

lemma aborted_datetime:
  "aborted (issues (z_iso_datetime v)) = (\<not> is_string v)"
  by (cases v) (auto simp: datetime_issues aborted_simps type_issue_def is_string_def)

lemma aborted_score:
  "aborted (issues (z_coerce_number [z_int, z_min 0] v)) = (\<not> coerces_to_integer v)"
proof (cases "Number v")
  case (Fin q)
  show ?thesis
  proof (cases "isInteger q")
    case True
    then obtain n where q: "q = of_int n" by (auto simp: isInteger_iff)
    show ?thesis using Fin q True
      by (auto simp: z_coerce_number_def check_defs int_format_of_int aborted_simps z_min_def
          z_greater_def greater_than_def coerces_to_integer_def)
  next
    case False
    then show ?thesis using Fin
      by (auto simp: z_coerce_number_def check_defs int_format_not_integer aborted_simps coerces_to_integer_def)
  qed
qed (auto simp: z_coerce_number_def type_issue_def aborted_simps coerces_to_integer_def)

lemma aborted_createMatch_fields:
  "aborted (snd (parse_shape createMatch_shape q)) = (\<not> well_typed_body q)"
  unfolding snd_parse_shape
  by (auto simp: createMatch_shape_def aborted_simps aborted_required_string
      aborted_datetime aborted_score optional_issues well_typed_body_def)

lemma field_issue_path:
  "i \<in> set (snd (parse_shape shape q)) \<Longrightarrow> path i \<noteq> []"
  unfolding snd_parse_shape by (auto simp: prefixIssues_def)

lemma custom_issue_not_field:
  "custom_issue msg \<notin> set (snd (parse_shape shape q))"
  using field_issue_path [of "custom_issue msg" shape q] by (auto simp: custom_issue_def)

lemma refine_end_before_start:
  "Date_parse host (getprop q ''startTime'') = Some st \<Longrightarrow>
   Date_parse host (getprop q ''endTime'') = Some en \<Longrightarrow>
   createMatch_refine host \<lparr>value = Obj q, issues = []\<rparr> =
     (if en \<le> st then [custom_issue ''endTime must be after startTime''] else [])"
  by (simp add: createMatch_refine_def)

lemma safeParse_createMatch:
  "safeParse (createMatchSchema host) (Obj q) =
     (if issues (createMatchSchema host (Obj q)) = []
      then Inr (Obj (fst (parse_shape createMatch_shape q)))
      else Inl (issues (createMatchSchema host (Obj q))))"
  by (simp add: safeParse_def createMatchSchema_value Let_def)

text \<open>
  Claim C2, as amended. When the start and the end time of a create body both parse and
  the end is not after the start (equality included), validation fails. The error holds
  the issue with the message \<^verbatim>\<open>endTime must be after startTime\<close> exactly when no field of
  the body fails the type test of its schema: the five strings are strings and each
  score is absent or converts to an integer. The issue is attached to the body as a
  whole (its path is empty) and names \<^verbatim>\<open>endTime\<close> in its message. When a field has the
  wrong type, the error reports the fields only.
\<close>

theorem createMatchSchema_end_not_after_start:
  assumes "Date_parse host (getprop q ''startTime'') = Some st"
    and "Date_parse host (getprop q ''endTime'') = Some en"
    and "en \<le> st"
  shows "\<exists>is. safeParse (createMatchSchema host) (Obj q) = Inl is
           \<and> (custom_issue ''endTime must be after startTime'' \<in> set is) = well_typed_body q"
proof (cases "well_typed_body q")
  case True
  then have "issues (createMatchSchema host (Obj q)) =
      snd (parse_shape createMatch_shape q) @ [custom_issue ''endTime must be after startTime'']"
    using assms
    by (simp add: createMatchSchema_issues aborted_createMatch_fields refine_end_before_start)
  then show ?thesis using True by (simp add: safeParse_createMatch)
next
  case False
  then have ab: "aborted (snd (parse_shape createMatch_shape q))"
    by (simp add: aborted_createMatch_fields)
  then have "issues (createMatchSchema host (Obj q)) = snd (parse_shape createMatch_shape q)"
    by (simp add: createMatchSchema_issues)
  moreover from ab have "snd (parse_shape createMatch_shape q) \<noteq> []"
    by (auto simp: aborted_Nil)
  ultimately show ?thesis using False
    by (simp add: safeParse_createMatch custom_issue_not_field)
qed


lemma fields_in_createMatch_issues:
  "set (snd (parse_shape createMatch_shape q)) \<subseteq> set (issues (createMatchSchema host (Obj q)))"
  by (simp add: createMatchSchema_issues Let_def)

text \<open>
  Claim C1, as amended. A create body that omits \<^verbatim>\<open>endTime\<close> fails validation, whatever
  its other fields are, and the error holds a type issue at the path \<^verbatim>\<open>endTime\<close>: the
  create schema declares \<^verbatim>\<open>endTime\<close> with \<^verbatim>\<open>z.iso.datetime()\<close> and without
  \<^verbatim>\<open>.optional()\<close>, so the field is required, as \<^verbatim>\<open>startTime\<close> is.
\<close>

theorem createMatchSchema_requires_endTime:
  assumes "getprop q ''endTime'' = Undefined"
  shows "\<exists>is. safeParse (createMatchSchema host) (Obj q) = Inl is
           \<and> \<lparr>code = invalid_type ''string'', path = [''endTime''], message = None,
               continue = False\<rparr> \<in> set is"
proof -
  have "type_issue ''string'' \<in> set (issues (z_iso_datetime (getprop q ''endTime'')))"
    using assms by (simp add: datetime_issues)
  moreover have "(''endTime'', z_iso_datetime) \<in> set createMatch_shape"
    by (simp add: createMatch_shape_def)
  ultimately have "(type_issue ''string'')\<lparr>path := ''endTime'' # path (type_issue ''string'')\<rparr>
      \<in> set (snd (parse_shape createMatch_shape q))"
    by (rule parse_shape_issue_mem [rotated])
  then have m: "\<lparr>code = invalid_type ''string'', path = [''endTime''], message = None,
      continue = False\<rparr> \<in> set (issues (createMatchSchema host (Obj q)))"
    using fields_in_createMatch_issues [of q host] by (auto simp: type_issue_def)
  then have "issues (createMatchSchema host (Obj q)) \<noteq> []" by auto
  with m show ?thesis by (simp add: safeParse_createMatch)
qed

text \<open>
  Claim C4, as amended. When validation of a create body fails, the error is the list
  of the issues of every field, each under the path of its field and in the order of
  the schema, followed by the issues of the cross-field check (start and end time
  parse, end after start) when no field of the body fails the type test of its schema.
  So the issues of all fields are reported together, and the cross-field issues join
  them unless a field has the wrong type.
\<close>

theorem createMatchSchema_collects:
  assumes "safeParse (createMatchSchema host) (Obj q) = Inl is"
  shows "is = concat (map (\<lambda>(k, s). prefixIssues k (issues (s (getprop q k)))) createMatch_shape)
              @ (if well_typed_body q then createMatch_refine host \<lparr>value = Obj q, issues = []\<rparr>
                 else [])"
proof -
  have "is = issues (createMatchSchema host (Obj q))"
    using assms by (simp add: safeParse_createMatch split: if_splits)
  then have "is = snd (parse_shape createMatch_shape q)
              @ (if well_typed_body q then createMatch_refine host \<lparr>value = Obj q, issues = []\<rparr>
                 else [])"
    by (simp add: createMatchSchema_issues Let_def aborted_createMatch_fields)
  then show ?thesis
    unfolding snd_parse_shape .
qed


lemma datetime_ok:
  "(issues (z_iso_datetime v) = []) = (\<exists>s. v = Str s \<and> datetime_pattern s)"
  by (cases v) (auto simp: datetime_issues type_issue_def)

lemma optional_score_ok:
  "(issues (optional (z_coerce_number [z_int, z_min 0]) v) = []) =
     (v = Undefined \<or> (\<exists>n. Number v = Fin (of_int n) \<and> 0 \<le> n \<and> n \<le> MAX_SAFE_INTEGER))"
  by (simp add: optional_issues score_schema_ok)

lemma createMatch_fields_ok:
  "(snd (parse_shape createMatch_shape q) = []) =
     ((\<exists>s. getprop q ''sport'' = Str s \<and> 1 \<le> length s)
      \<and> (\<exists>s. getprop q ''homeTeam'' = Str s \<and> 1 \<le> length s)
      \<and> (\<exists>s. getprop q ''awayTeam'' = Str s \<and> 1 \<le> length s)
      \<and> (\<exists>s. getprop q ''startTime'' = Str s \<and> datetime_pattern s)
      \<and> (\<exists>s. getprop q ''endTime'' = Str s \<and> datetime_pattern s)
      \<and> (getprop q ''homeScore'' = Undefined
          \<or> (\<exists>n. Number (getprop q ''homeScore'') = Fin (of_int n) \<and> 0 \<le> n \<and> n \<le> MAX_SAFE_INTEGER))
      \<and> (getprop q ''awayScore'' = Undefined
          \<or> (\<exists>n. Number (getprop q ''awayScore'') = Fin (of_int n) \<and> 0 \<le> n \<and> n \<le> MAX_SAFE_INTEGER)))"
  unfolding snd_parse_shape createMatch_shape_def
  by (simp only: list.map prod.case concat.simps append_Nil2 append_is_Nil_conv
      prefixIssues_Nil_iff required_string_ok datetime_ok optional_score_ok conj_assoc)

lemma refine_ok:
  "(createMatch_refine host \<lparr>value = Obj q, issues = []\<rparr> = []) =
     (\<exists>st en. Date_parse host (getprop q ''startTime'') = Some st
        \<and> Date_parse host (getprop q ''endTime'') = Some en \<and> st < en)"
  by (auto simp: createMatch_refine_def Let_def split: option.splits)

text \<open>
  The length check of a name has a guard of its own, so it also runs on a name that the
  string schema has refused when that name has a length. An empty array as sport gives
  the type issue and the length issue, both under the path of the field.
\<close>

lemma createMatchSchema_array_sport:
  "safeParse (createMatchSchema no_fallback)
     (Obj [(''sport'', Arr []), (''homeTeam'', Str ''Team A''), (''awayTeam'', Str ''Team B''),
           (''startTime'', Str ''2026-03-01T15:00:00Z''),
           (''endTime'', Str ''2026-03-01T17:00:00Z'')]) =
     Inl [\<lparr>code = invalid_type ''string'', path = [''sport''], message = None,
            continue = False\<rparr>,
          \<lparr>code = too_small ''array'' 1 True, path = [''sport''],
            message = Some ''sport is required'', continue = True\<rparr>]"
  by code_simp

text \<open>
  Claim C9. A create body is accepted exactly when \<^verbatim>\<open>sport\<close>, \<^verbatim>\<open>homeTeam\<close> and \<^verbatim>\<open>awayTeam\<close>
  are strings of length at least 1, the two times are strings that match the date-time
  pattern, each score is absent or converts to an integer from 0 to \<open>2^53 - 1\<close>, and both
  times parse with the end after the start. Of the three names only the length is
  tested: any non-empty string passes, a string of white space included.
\<close>

theorem createMatchSchema_accepts:
  "success (safeParse (createMatchSchema host) (Obj q)) =
     ((\<exists>s. getprop q ''sport'' = Str s \<and> 1 \<le> length s)
      \<and> (\<exists>s. getprop q ''homeTeam'' = Str s \<and> 1 \<le> length s)
      \<and> (\<exists>s. getprop q ''awayTeam'' = Str s \<and> 1 \<le> length s)
      \<and> (\<exists>s. getprop q ''startTime'' = Str s \<and> datetime_pattern s)
      \<and> (\<exists>s. getprop q ''endTime'' = Str s \<and> datetime_pattern s)
      \<and> (getprop q ''homeScore'' = Undefined
          \<or> (\<exists>n. Number (getprop q ''homeScore'') = Fin (of_int n) \<and> 0 \<le> n \<and> n \<le> MAX_SAFE_INTEGER))
      \<and> (getprop q ''awayScore'' = Undefined
          \<or> (\<exists>n. Number (getprop q ''awayScore'') = Fin (of_int n) \<and> 0 \<le> n \<and> n \<le> MAX_SAFE_INTEGER))
      \<and> (\<exists>st en. Date_parse host (getprop q ''startTime'') = Some st
            \<and> Date_parse host (getprop q ''endTime'') = Some en \<and> st < en))"
proof -
  have "success (safeParse (createMatchSchema host) (Obj q)) =
      (issues (createMatchSchema host (Obj q)) = [])"
    by (simp add: safeParse_createMatch success_def)
  also have "\<dots> = (snd (parse_shape createMatch_shape q) = []
      \<and> createMatch_refine host \<lparr>value = Obj q, issues = []\<rparr> = [])"
    by (auto simp: createMatchSchema_issues Let_def aborted_Nil)
  finally show ?thesis
    unfolding createMatch_fields_ok refine_ok by (simp only: conj_assoc)
qed


text \<open>
  The theorem at a body with sport, teams and start time and no \<^verbatim>\<open>endTime\<close>.
\<close>

theorem createMatchSchema_requires_endTime_witness:
  "getprop [(''sport'', Str ''basketball''), (''homeTeam'', Str ''Lakers''),
            (''awayTeam'', Str ''Warriors''), (''startTime'', Str ''2026-03-01T15:00:00Z'')]
     ''endTime'' = Undefined
   \<and> (\<exists>is. safeParse (createMatchSchema no_fallback)
               (Obj [(''sport'', Str ''basketball''), (''homeTeam'', Str ''Lakers''),
                     (''awayTeam'', Str ''Warriors''),
                     (''startTime'', Str ''2026-03-01T15:00:00Z'')]) = Inl is
          \<and> \<lparr>code = invalid_type ''string'', path = [''endTime''], message = None,
              continue = False\<rparr> \<in> set is)"
proof -
  let ?b = "[(''sport'', Str ''basketball''), (''homeTeam'', Str ''Lakers''),
             (''awayTeam'', Str ''Warriors''), (''startTime'', Str ''2026-03-01T15:00:00Z'')]"
  have h: "getprop ?b ''endTime'' = Undefined"
    by (simp add: getprop_def)
  from h createMatchSchema_requires_endTime [OF h, of no_fallback] show ?thesis
    by blast
qed

text \<open>
  The claim as first stated, that such a body is accepted, fails at the body of the
  spec's own scenario: a non-empty sport and teams, a start time that matches the
  pattern, no \<^verbatim>\<open>endTime\<close>. The result is the error with the one type issue at \<^verbatim>\<open>endTime\<close>.
\<close>

theorem createMatchSchema_optional_endTime_counterexample:
  "getprop [(''sport'', Str ''football''), (''homeTeam'', Str ''Team A''),
            (''awayTeam'', Str ''Team B''), (''startTime'', Str ''2026-03-01T15:00:00Z'')]
     ''sport'' = Str ''football''
   \<and> datetime_pattern ''2026-03-01T15:00:00Z''
   \<and> map_of [(''sport'', Str ''football''), (''homeTeam'', Str ''Team A''),
              (''awayTeam'', Str ''Team B''), (''startTime'', Str ''2026-03-01T15:00:00Z'')]
        ''endTime'' = None
   \<and> safeParse (createMatchSchema no_fallback)
        (Obj [(''sport'', Str ''football''), (''homeTeam'', Str ''Team A''),
              (''awayTeam'', Str ''Team B''), (''startTime'', Str ''2026-03-01T15:00:00Z'')]) =
       Inl [\<lparr>code = invalid_type ''string'', path = [''endTime''], message = None,
             continue = False\<rparr>]"
  by code_simp

text \<open>
  The theorem at a body with equal start and end time, where no field has the wrong type.
\<close>

theorem createMatchSchema_end_not_after_start_witness:
  "Date_parse no_fallback
     (getprop [(''sport'', Str ''football''), (''homeTeam'', Str ''Team A''),
               (''awayTeam'', Str ''Team B''), (''startTime'', Str ''2026-03-01T15:00:00Z''),
               (''endTime'', Str ''2026-03-01T15:00:00Z'')] ''startTime'') = Some 1772377200000
   \<and> Date_parse no_fallback
     (getprop [(''sport'', Str ''football''), (''homeTeam'', Str ''Team A''),
               (''awayTeam'', Str ''Team B''), (''startTime'', Str ''2026-03-01T15:00:00Z''),
               (''endTime'', Str ''2026-03-01T15:00:00Z'')] ''endTime'') = Some 1772377200000
   \<and> (1772377200000::int) \<le> 1772377200000
   \<and> well_typed_body [(''sport'', Str ''football''), (''homeTeam'', Str ''Team A''),
               (''awayTeam'', Str ''Team B''), (''startTime'', Str ''2026-03-01T15:00:00Z''),
               (''endTime'', Str ''2026-03-01T15:00:00Z'')]
   \<and> (\<exists>is. safeParse (createMatchSchema no_fallback)
               (Obj [(''sport'', Str ''football''), (''homeTeam'', Str ''Team A''),
                     (''awayTeam'', Str ''Team B''), (''startTime'', Str ''2026-03-01T15:00:00Z''),
                     (''endTime'', Str ''2026-03-01T15:00:00Z'')]) = Inl is
          \<and> custom_issue ''endTime must be after startTime'' \<in> set is)"
proof -
  let ?b = "[(''sport'', Str ''football''), (''homeTeam'', Str ''Team A''),
             (''awayTeam'', Str ''Team B''), (''startTime'', Str ''2026-03-01T15:00:00Z''),
             (''endTime'', Str ''2026-03-01T15:00:00Z'')]"
  have s: "Date_parse no_fallback (getprop ?b ''startTime'') = Some 1772377200000"
    by code_simp
  have e: "Date_parse no_fallback (getprop ?b ''endTime'') = Some 1772377200000"
    by code_simp
  have le: "(1772377200000::int) \<le> 1772377200000"
    by simp
  have wt: "well_typed_body ?b"
    by code_simp
  from s e le wt createMatchSchema_end_not_after_start [OF s e le] show ?thesis
    by blast
qed

text \<open>
  The claim as first stated, that the error always holds that issue, fails at a body
  without \<^verbatim>\<open>sport\<close> whose end time equals its start time: the error holds the type issue
  of \<^verbatim>\<open>sport\<close> and nothing else.
\<close>

theorem createMatchSchema_end_not_after_start_counterexample:
  "Date_parse no_fallback
     (getprop [(''homeTeam'', Str ''Team A''), (''awayTeam'', Str ''Team B''),
               (''startTime'', Str ''2026-03-01T15:00:00Z''),
               (''endTime'', Str ''2026-03-01T15:00:00Z'')] ''startTime'') = Some 1772377200000
   \<and> Date_parse no_fallback
     (getprop [(''homeTeam'', Str ''Team A''), (''awayTeam'', Str ''Team B''),
               (''startTime'', Str ''2026-03-01T15:00:00Z''),
               (''endTime'', Str ''2026-03-01T15:00:00Z'')] ''endTime'') = Some 1772377200000
   \<and> safeParse (createMatchSchema no_fallback)
        (Obj [(''homeTeam'', Str ''Team A''), (''awayTeam'', Str ''Team B''),
              (''startTime'', Str ''2026-03-01T15:00:00Z''),
              (''endTime'', Str ''2026-03-01T15:00:00Z'')]) =
       Inl [\<lparr>code = invalid_type ''string'', path = [''sport''], message = None,
             continue = False\<rparr>]
   \<and> custom_issue ''endTime must be after startTime'' \<notin>
       set [\<lparr>code = invalid_type ''string'', path = [''sport''], message = None,
             continue = False\<rparr>]"
  by code_simp

text \<open>
  The theorem at the example of the claim: an empty sport, an empty home team and an
  end time equal to the start time give one error with the three issues.
\<close>

theorem createMatchSchema_collects_witness:
  "safeParse (createMatchSchema no_fallback)
     (Obj [(''sport'', Str []), (''homeTeam'', Str []), (''awayTeam'', Str ''Team B''),
           (''startTime'', Str ''2026-03-01T15:00:00Z''),
           (''endTime'', Str ''2026-03-01T15:00:00Z'')]) =
     Inl [\<lparr>code = too_small ''string'' 1 True, path = [''sport''],
            message = Some ''sport is required'', continue = True\<rparr>,
          \<lparr>code = too_small ''string'' 1 True, path = [''homeTeam''],
            message = Some ''homeTeam is required'', continue = True\<rparr>,
          \<lparr>code = custom, path = [], message = Some ''endTime must be after startTime'',
            continue = True\<rparr>]
   \<and> [\<lparr>code = too_small ''string'' 1 True, path = [''sport''],
            message = Some ''sport is required'', continue = True\<rparr>,
          \<lparr>code = too_small ''string'' 1 True, path = [''homeTeam''],
            message = Some ''homeTeam is required'', continue = True\<rparr>,
          \<lparr>code = custom, path = [], message = Some ''endTime must be after startTime'',
            continue = True\<rparr>] =
       concat (map (\<lambda>(k, s). prefixIssues k (issues (s (getprop
           [(''sport'', Str []), (''homeTeam'', Str []), (''awayTeam'', Str ''Team B''),
            (''startTime'', Str ''2026-03-01T15:00:00Z''),
            (''endTime'', Str ''2026-03-01T15:00:00Z'')] k)))) createMatch_shape)
       @ (if well_typed_body
              [(''sport'', Str []), (''homeTeam'', Str []), (''awayTeam'', Str ''Team B''),
               (''startTime'', Str ''2026-03-01T15:00:00Z''),
               (''endTime'', Str ''2026-03-01T15:00:00Z'')]
          then createMatch_refine no_fallback
                 \<lparr>value = Obj [(''sport'', Str []), (''homeTeam'', Str []),
                               (''awayTeam'', Str ''Team B''),
                               (''startTime'', Str ''2026-03-01T15:00:00Z''),
                               (''endTime'', Str ''2026-03-01T15:00:00Z'')],
                  issues = []\<rparr>
          else [])"
proof -
  let ?b = "[(''sport'', Str []), (''homeTeam'', Str []), (''awayTeam'', Str ''Team B''),
             (''startTime'', Str ''2026-03-01T15:00:00Z''),
             (''endTime'', Str ''2026-03-01T15:00:00Z'')]"
  let ?is = "[\<lparr>code = too_small ''string'' 1 True, path = [''sport''],
            message = Some ''sport is required'', continue = True\<rparr>,
          \<lparr>code = too_small ''string'' 1 True, path = [''homeTeam''],
            message = Some ''homeTeam is required'', continue = True\<rparr>,
          \<lparr>code = custom, path = [], message = Some ''endTime must be after startTime'',
            continue = True\<rparr>]"
  have p: "safeParse (createMatchSchema no_fallback) (Obj ?b) = Inl ?is"
    by code_simp
  from p createMatchSchema_collects [OF p] show ?thesis
    by blast
qed

text \<open>
  The claim as first stated, that every violation of the input is in the error, fails at
  a body with an empty home team, \<^verbatim>\<open>null\<close> as away team and an end time one hour before the
  start time: both times parse, the end is not after the start, and the error holds the
  two field issues only.
\<close>

theorem createMatchSchema_collects_counterexample:
  "Date_parse no_fallback (Str ''2026-03-01T15:00:00Z'') = Some 1772377200000
   \<and> Date_parse no_fallback (Str ''2026-03-01T14:00:00Z'') = Some 1772373600000
   \<and> (1772373600000::int) \<le> 1772377200000
   \<and> safeParse (createMatchSchema no_fallback)
        (Obj [(''sport'', Str ''football''), (''homeTeam'', Str []), (''awayTeam'', Null),
              (''startTime'', Str ''2026-03-01T15:00:00Z''),
              (''endTime'', Str ''2026-03-01T14:00:00Z'')]) =
       Inl [\<lparr>code = too_small ''string'' 1 True, path = [''homeTeam''],
              message = Some ''homeTeam is required'', continue = True\<rparr>,
            \<lparr>code = invalid_type ''string'', path = [''awayTeam''], message = None,
              continue = False\<rparr>]"
  by code_simp

text \<open>
  The theorem at a body whose sport and teams are a single space (accepted) and at the
  same body with the empty string as sport (rejected).
\<close>

theorem createMatchSchema_accepts_witness:
  "success (safeParse (createMatchSchema no_fallback)
     (Obj [(''sport'', Str '' ''), (''homeTeam'', Str '' ''), (''awayTeam'', Str '' ''),
           (''startTime'', Str ''2026-03-01T15:00:00Z''),
           (''endTime'', Str ''2026-03-01T17:00:00Z'')]))
   \<and> \<not> success (safeParse (createMatchSchema no_fallback)
     (Obj [(''sport'', Str []), (''homeTeam'', Str '' ''), (''awayTeam'', Str '' ''),
           (''startTime'', Str ''2026-03-01T15:00:00Z''),
           (''endTime'', Str ''2026-03-01T17:00:00Z'')]))"
proof -
  let ?b = "[(''sport'', Str '' ''), (''homeTeam'', Str '' ''), (''awayTeam'', Str '' ''),
             (''startTime'', Str ''2026-03-01T15:00:00Z''),
             (''endTime'', Str ''2026-03-01T17:00:00Z'')]"
  let ?c = "[(''sport'', Str []), (''homeTeam'', Str '' ''), (''awayTeam'', Str '' ''),
             (''startTime'', Str ''2026-03-01T15:00:00Z''),
             (''endTime'', Str ''2026-03-01T17:00:00Z'')]"
  have 1: "getprop ?b ''sport'' = Str '' '' \<and> 1 \<le> length '' ''"
    "getprop ?b ''homeTeam'' = Str '' '' \<and> 1 \<le> length '' ''"
    "getprop ?b ''awayTeam'' = Str '' '' \<and> 1 \<le> length '' ''"
    by (simp_all add: getprop_def)
  have 2: "getprop ?b ''startTime'' = Str ''2026-03-01T15:00:00Z'' \<and> datetime_pattern ''2026-03-01T15:00:00Z''"
    "getprop ?b ''endTime'' = Str ''2026-03-01T17:00:00Z'' \<and> datetime_pattern ''2026-03-01T17:00:00Z''"
    by code_simp+
  have 3: "getprop ?b ''homeScore'' = Undefined" "getprop ?b ''awayScore'' = Undefined"
    by (simp_all add: getprop_def)
  have 4: "Date_parse no_fallback (getprop ?b ''startTime'') = Some 1772377200000
      \<and> Date_parse no_fallback (getprop ?b ''endTime'') = Some 1772384400000
      \<and> (1772377200000::int) < 1772384400000"
    by code_simp
  have a: "success (safeParse (createMatchSchema no_fallback) (Obj ?b))"
    unfolding createMatchSchema_accepts using 1 2 3 4 by blast
  have 5: "getprop ?c ''sport'' = Str []"
    by (simp add: getprop_def)
  have b: "\<not> success (safeParse (createMatchSchema no_fallback) (Obj ?c))"
    unfolding createMatchSchema_accepts using 5 by simp
  from a b show ?thesis by blast
qed


section \<open>Properties of the tables and the operations\<close>

lemma build_row_keys:
  "build_row cols n now vals = Inr r \<Longrightarrow> map fst r = map fst cols"
  by (induction cols arbitrary: r)
     (auto simp: Let_def split: if_splits sum.splits)

lemma build_row_lookup:
  "build_row cols n now vals = Inr r \<Longrightarrow> distinct (map fst cols) \<Longrightarrow> (k, c) \<in> set cols \<Longrightarrow>
   map_of r k = Some (stored_value (col_type c) (column_value n now c (map_of vals k)))"
proof (induction cols arbitrary: r)
  case Nil
  then show ?case by simp
next
  case (Cons a cols)
  obtain k' c' where a: "a = (k', c')" by (cases a)
  from Cons.prems(1) a obtain r' where
    r': "build_row cols n now vals = Inr r'"
    and r: "r = (k', stored_value (col_type c') (column_value n now c' (map_of vals k'))) # r'"
    by (auto simp: Let_def split: if_splits sum.splits)
  show ?case
  proof (cases "k' = k")
    case True
    with Cons.prems a have "c' = c"
      by (auto simp: rev_image_eqI)
    with r True show ?thesis by simp
  next
    case False
    with Cons.prems a have "(k, c) \<in> set cols" "distinct (map fst cols)" by auto
    with Cons.IH [OF r'] r False show ?thesis by simp
  qed
qed

lemma build_row_conforms:
  "build_row cols n now vals = Inr r \<Longrightarrow> distinct (map fst cols) \<Longrightarrow> (k, c) \<in> set cols \<Longrightarrow>
   \<exists>v. map_of r k = Some (stored_value (col_type c) v)
     \<and> (if v = SqlNull then \<not> col_notNull c else conforms (col_type c) v)"
proof (induction cols arbitrary: r)
  case Nil
  then show ?case by simp
next
  case (Cons a cols)
  obtain k' c' where a: "a = (k', c')" by (cases a)
  let ?v = "column_value n now c' (map_of vals k')"
  from Cons.prems(1) a obtain r' where
    r': "build_row cols n now vals = Inr r'"
    and r: "r = (k', stored_value (col_type c') ?v) # r'"
    and ok: "if ?v = SqlNull then \<not> col_notNull c' else conforms (col_type c') ?v"
    by (auto simp: Let_def split: if_splits sum.splits)
  show ?case
  proof (cases "k' = k")
    case True
    with Cons.prems a have "c' = c"
      by (auto simp: rev_image_eqI)
    with r True ok show ?thesis by (auto split: if_splits)
  next
    case False
    with Cons.prems a have "(k, c) \<in> set cols" "distinct (map fst cols)" by auto
    with Cons.IH [OF r'] r False show ?thesis by simp
  qed
qed

lemma distinct_matches_columns: "distinct (map fst (tableColumns matches))"
  by (simp add: matches_def pgTable_def)

lemma distinct_commentary_columns: "distinct (map fst (tableColumns commentary))"
  by (simp add: commentary_def pgTable_def)

lemma matches_status_column:
  "(''status'', notNull (default' (SqlText ''scheduled'') (enum_column matchStatusEnum ''status'')))
     \<in> set (tableColumns matches)"
  by (simp add: matches_def pgTable_def)

lemma matches_score_columns:
  "(''homeScore'', notNull (default' (SqlInt 0) (integer ''home_score''))) \<in> set (tableColumns matches)"
  "(''awayScore'', notNull (default' (SqlInt 0) (integer ''away_score''))) \<in> set (tableColumns matches)"
  by (simp_all add: matches_def pgTable_def)

lemma insert_matches_Inr:
  "insert_matches now vals d = (Inr r, d') \<Longrightarrow>
   build_row (tableColumns matches) (matches_id_seq d) now vals = Inr r
   \<and> matches_rows d' = matches_rows d @ [r] \<and> commentary_rows d' = commentary_rows d"
  by (auto simp: insert_matches_def split: sum.splits if_splits)

lemma stored_value_other: "t \<noteq> PgJsonb \<Longrightarrow> stored_value t v = v"
  by (simp add: stored_value_def)

lemma status_value:
  "stored_value
     (col_type (notNull (default' (SqlText ''scheduled'') (enum_column matchStatusEnum ''status''))))
     (column_value n now
        (notNull (default' (SqlText ''scheduled'') (enum_column matchStatusEnum ''status''))) x) =
     (case x of None \<Rightarrow> SqlText ''scheduled'' | Some v \<Rightarrow> v)"
  by (simp add: stored_value_def column_value_def notNull_def default'_def enum_column_def
      plain_column_def split: option.splits)

lemma score_value:
  "stored_value (col_type (notNull (default' (SqlInt 0) (integer nm))))
     (column_value n now (notNull (default' (SqlInt 0) (integer nm))) x) =
     (case x of None \<Rightarrow> SqlInt 0 | Some v \<Rightarrow> v)"
  by (simp add: stored_value_def column_value_def notNull_def default'_def integer_def
      plain_column_def split: option.splits)

text \<open>
  Claim C6. A match that is inserted is the last row of the table afterwards. Its
  \<^verbatim>\<open>status\<close> is \<^verbatim>\<open>scheduled\<close> and its \<^verbatim>\<open>homeScore\<close> and \<^verbatim>\<open>awayScore\<close> are 0 when the
  inserted values leave the field out; a field that is supplied holds the supplied
  value.
\<close>

theorem insert_matches_defaults:
  assumes "insert_matches now vals d = (Inr r, d')"
  shows "matches_rows d' = matches_rows d @ [r]
     \<and> map_of r ''status'' =
         Some (case map_of vals ''status'' of None \<Rightarrow> SqlText ''scheduled'' | Some v \<Rightarrow> v)
     \<and> map_of r ''homeScore'' =
         Some (case map_of vals ''homeScore'' of None \<Rightarrow> SqlInt 0 | Some v \<Rightarrow> v)
     \<and> map_of r ''awayScore'' =
         Some (case map_of vals ''awayScore'' of None \<Rightarrow> SqlInt 0 | Some v \<Rightarrow> v)"
proof -
  from assms have b: "build_row (tableColumns matches) (matches_id_seq d) now vals = Inr r"
    and rows: "matches_rows d' = matches_rows d @ [r]"
    by (simp_all add: insert_matches_Inr)
  note l = build_row_lookup [OF b distinct_matches_columns]
  from l [OF matches_status_column] l [OF matches_score_columns(1)] l [OF matches_score_columns(2)]
    rows
  show ?thesis
    by (simp only: status_value score_value simp_thms)
qed


text \<open>
  The theorem at the insertion of the integration test: sport, teams and start time
  only, into the empty tables.
\<close>

theorem insert_matches_defaults_witness:
  "insert_matches 1772000000000
     [(''sport'', SqlText ''football''), (''homeTeam'', SqlText ''Team A''),
      (''awayTeam'', SqlText ''Team B''), (''startTime'', SqlTimestamp 1772377200000)]
     empty_db =
     (Inr [(''id'', SqlInt 1), (''sport'', SqlText ''football''),
           (''homeTeam'', SqlText ''Team A''), (''awayTeam'', SqlText ''Team B''),
           (''status'', SqlText ''scheduled''), (''startTime'', SqlTimestamp 1772377200000),
           (''endTime'', SqlNull), (''homeScore'', SqlInt 0), (''awayScore'', SqlInt 0),
           (''createdAt'', SqlTimestamp 1772000000000)],
      \<lparr>matches_rows =
         [[(''id'', SqlInt 1), (''sport'', SqlText ''football''),
           (''homeTeam'', SqlText ''Team A''), (''awayTeam'', SqlText ''Team B''),
           (''status'', SqlText ''scheduled''), (''startTime'', SqlTimestamp 1772377200000),
           (''endTime'', SqlNull), (''homeScore'', SqlInt 0), (''awayScore'', SqlInt 0),
           (''createdAt'', SqlTimestamp 1772000000000)]],
       commentary_rows = [], matches_id_seq = 2, commentary_id_seq = 1\<rparr>)
   \<and> map_of [(''id'', SqlInt 1), (''sport'', SqlText ''football''),
           (''homeTeam'', SqlText ''Team A''), (''awayTeam'', SqlText ''Team B''),
           (''status'', SqlText ''scheduled''), (''startTime'', SqlTimestamp 1772377200000),
           (''endTime'', SqlNull), (''homeScore'', SqlInt 0), (''awayScore'', SqlInt 0),
           (''createdAt'', SqlTimestamp 1772000000000)] ''status'' =
       Some (case map_of [(''sport'', SqlText ''football''), (''homeTeam'', SqlText ''Team A''),
                          (''awayTeam'', SqlText ''Team B''),
                          (''startTime'', SqlTimestamp 1772377200000)] ''status'' of
               None \<Rightarrow> SqlText ''scheduled'' | Some v \<Rightarrow> v)"
proof -
  let ?vals = "[(''sport'', SqlText ''football''), (''homeTeam'', SqlText ''Team A''),
      (''awayTeam'', SqlText ''Team B''), (''startTime'', SqlTimestamp 1772377200000)]"
  let ?r = "[(''id'', SqlInt 1), (''sport'', SqlText ''football''),
           (''homeTeam'', SqlText ''Team A''), (''awayTeam'', SqlText ''Team B''),
           (''status'', SqlText ''scheduled''), (''startTime'', SqlTimestamp 1772377200000),
           (''endTime'', SqlNull), (''homeScore'', SqlInt 0), (''awayScore'', SqlInt 0),
           (''createdAt'', SqlTimestamp 1772000000000)]"
  have i: "insert_matches 1772000000000 ?vals empty_db =
     (Inr ?r, \<lparr>matches_rows = [?r], commentary_rows = [], matches_id_seq = 2,
               commentary_id_seq = 1\<rparr>)"
    by code_simp
  from i insert_matches_defaults [OF i] show ?thesis
    by blast
qed

lemma issues_runChecks_prefix: "\<exists>more. issues (runChecks chs p) = issues p @ more"
proof (induction chs arbitrary: p)
  case Nil
  then show ?case by simp
next
  case (Cons ch chs)
  let ?run = "case check_when ch of None \<Rightarrow> \<not> aborted (issues p) | Some w \<Rightarrow> w p"
  let ?p = "if ?run then p\<lparr>issues := issues p @ check_run ch p\<rparr> else p"
  from Cons [of ?p] obtain more where "issues (runChecks chs ?p) = issues ?p @ more"
    by blast
  then show ?case by (cases ?run) auto
qed

lemma z_object_not_object:
  assumes "\<forall>kvs. v \<noteq> Obj kvs"
  shows "issues (z_object shape chs v) \<noteq> []"
proof -
  from assms have "z_object shape chs v =
      runChecks chs \<lparr>value = v, issues = [type_issue ''object'']\<rparr>"
    by (cases v) (auto simp: z_object_def)
  with issues_runChecks_prefix [of chs "\<lparr>value = v, issues = [type_issue ''object'']\<rparr>"]
  show ?thesis by auto
qed

lemma safeParse_Inr_object:
  "safeParse (z_object shape chs) v = Inr data \<Longrightarrow> \<exists>kvs. v = Obj kvs"
  using z_object_not_object [of v shape chs]
  by (auto simp: safeParse_def Let_def split: if_splits)

lemma int_prop_Obj:
  "int_prop (Obj kvs) k = (case getprop kvs k of Num (Fin q) \<Rightarrow> Some \<lfloor>q\<rfloor> | _ \<Rightarrow> None)"
  by (simp add: int_prop_def)

lemma updateScoreSchema_data_nonneg:
  assumes "safeParse updateScoreSchema v = Inr data"
    and "k = ''homeScore'' \<or> k = ''awayScore''"
    and "int_prop data k = Some n"
  shows "0 \<le> n"
proof -
  from assms(1) obtain body where v: "v = Obj body"
    unfolding updateScoreSchema_def by (blast dest: safeParse_Inr_object)
  let ?h = "getprop body ''homeScore''" and ?a = "getprop body ''awayScore''"
  from assms(1) v have ok: "issues (z_coerce_number [z_int, z_min 0] ?h) = []"
      "issues (z_coerce_number [z_int, z_min 0] ?a) = []"
    and data: "data = Obj [(''homeScore'', Num (Number ?h)), (''awayScore'', Num (Number ?a))]"
    by (auto simp: updateScoreSchema_def safeParse_object_no_checks Let_def
        value_z_coerce_number prefixIssues_Nil_iff split: if_splits)
  from ok obtain h a where "Number ?h = Fin (of_int h)" "0 \<le> h" "Number ?a = Fin (of_int a)" "0 \<le> a"
    unfolding score_schema_ok by blast
  with data assms(2,3) show ?thesis
    by (auto simp: int_prop_Obj getprop_def)
qed

lemma parse_shape_entries:
  "(k, x) \<in> set (fst (parse_shape shape q)) \<Longrightarrow>
   \<exists>s. (k, s) \<in> set shape \<and> x = value (s (getprop q k))"
proof (induction shape)
  case Nil
  then show ?case by simp
next
  case (Cons a shape)
  obtain k' s' where a: "a = (k', s')" by (cases a)
  from Cons.prems a have "(k = k' \<and> x = value (s' (getprop q k')))
      \<or> (k, x) \<in> set (fst (parse_shape shape q))"
    by (auto simp: Let_def split: prod.splits if_splits)
  then show ?case
  proof
    assume "k = k' \<and> x = value (s' (getprop q k'))"
    with a show ?thesis by auto
  next
    assume "(k, x) \<in> set (fst (parse_shape shape q))"
    from Cons.IH [OF this] show ?thesis by auto
  qed
qed

lemma match_field_key: "(k, v) \<in> set (match_field host (k', x)) \<Longrightarrow> k = k'"
  by (induction host "(k', x)" arbitrary: k' x rule: match_field.induct)
     (auto split: if_splits option.splits)

lemma match_fields_lookup:
  assumes "map_of (match_fields host (Obj kvs)) k = Some v"
  shows "\<exists>x. (k, x) \<in> set kvs \<and> (k, v) \<in> set (match_field host (k, x))"
proof -
  from assms have "(k, v) \<in> set (concat (map (match_field host) kvs))"
    by (auto simp: match_fields_def dest: map_of_SomeD)
  then obtain k' x where e: "(k', x) \<in> set kvs" and m: "(k, v) \<in> set (match_field host (k', x))"
    by auto
  from m have "k = k'" by (rule match_field_key)
  with e m show ?thesis by auto
qed

lemma match_fields_no_key:
  assumes "k \<notin> fst ` set kvs"
  shows "map_of (match_fields host (Obj kvs)) k = None"
proof (rule ccontr)
  assume "map_of (match_fields host (Obj kvs)) k \<noteq> None"
  then obtain v where "map_of (match_fields host (Obj kvs)) k = Some v" by auto
  from match_fields_lookup [OF this] assms show False
    by (auto simp: rev_image_eqI)
qed

lemma createMatch_data_status:
  "map_of (match_fields host (Obj (fst (parse_shape createMatch_shape q)))) ''status'' = None"
proof (rule match_fields_no_key, rule notI)
  assume "''status'' \<in> fst ` set (fst (parse_shape createMatch_shape q))"
  then obtain x where "(''status'', x) \<in> set (fst (parse_shape createMatch_shape q))"
    by auto
  from fst_parse_shape_keys [OF this] show False
    by (simp add: createMatch_shape_def)
qed

lemma createMatch_data_score:
  assumes "snd (parse_shape createMatch_shape q) = []"
    and "k = ''homeScore'' \<or> k = ''awayScore''"
    and "map_of (match_fields host (Obj (fst (parse_shape createMatch_shape q)))) k = Some v"
  shows "\<exists>n. v = SqlInt n \<and> 0 \<le> n"
proof -
  from match_fields_lookup [OF assms(3)] obtain x where
    x: "(k, x) \<in> set (fst (parse_shape createMatch_shape q))"
    and m: "(k, v) \<in> set (match_field host (k, x))"
    by blast
  from parse_shape_entries [OF x] obtain s where
    s: "(k, s) \<in> set createMatch_shape" and xv: "x = value (s (getprop q k))"
    by blast
  from s assms(2) have sd: "s = optional (z_coerce_number [z_int, z_min 0])"
    by (auto simp: createMatch_shape_def)
  from assms(1) s have "issues (s (getprop q k)) = []"
    unfolding snd_parse_shape by (force simp: prefixIssues_Nil_iff)
  with sd have "getprop q k = Undefined
      \<or> (\<exists>n. Number (getprop q k) = Fin (of_int n) \<and> 0 \<le> n \<and> n \<le> MAX_SAFE_INTEGER)"
    by (simp only: optional_score_ok)
  then show ?thesis
  proof
    assume "getprop q k = Undefined"
    with xv sd m show ?thesis by (simp add: optional_value)
  next
    assume "\<exists>n. Number (getprop q k) = Fin (of_int n) \<and> 0 \<le> n \<and> n \<le> MAX_SAFE_INTEGER"
    then obtain n where n: "Number (getprop q k) = Fin (of_int n)" "0 \<le> n" by blast
    then have "getprop q k \<noteq> Undefined" by auto
    with xv sd n have "x = Num (Fin (of_int n))"
      by (simp add: optional_value value_z_coerce_number)
    with m n show ?thesis by simp
  qed
qed

lemma map_of_set_field:
  "map_of (set_field k v r) k' =
     (if k' = k then map_option (\<lambda>_. v) (map_of r k) else map_of r k')"
  by (induction r) (auto simp: set_field_def)

lemma match_ok_set_scores:
  assumes "match_ok r" and "0 \<le> hs" and "0 \<le> as"
  shows "match_ok (set_field ''awayScore'' (SqlInt as) (set_field ''homeScore'' (SqlInt hs) r))"
  using assms
  by (auto simp: match_ok_def status_ok_def score_ok_def map_of_set_field
      split: option.splits sqlval.splits)

lemma updateMatchScore_ok:
  assumes "matches_ok d" and "0 \<le> hs" and "0 \<le> as"
  shows "matches_ok (snd (updateMatchScore i hs as d))"
  using assms
  by (auto simp: updateMatchScore_def matches_ok_def Let_def list_all_iff
      match_ok_set_scores split: option.splits)

lemma deleteMatch_ok:
  "matches_ok d \<Longrightarrow> matches_ok (snd (deleteMatch i d))"
  by (auto simp: deleteMatch_def matches_ok_def list_all_iff)

lemma insert_commentary_matches_rows:
  "matches_rows (snd (insert_commentary now vals d)) = matches_rows d"
  by (auto simp: insert_commentary_def split: sum.splits)

lemma insert_matches_Inl:
  "insert_matches now vals d = (Inl e, d') \<Longrightarrow> d' = d"
  by (auto simp: insert_matches_def split: sum.splits if_splits)

lemma insert_matches_status_ok:
  assumes "insert_matches now vals d = (Inr r, d')"
  shows "status_ok r"
proof -
  from assms have b: "build_row (tableColumns matches) (matches_id_seq d) now vals = Inr r"
    by (simp add: insert_matches_Inr)
  from build_row_conforms [OF b distinct_matches_columns matches_status_column]
  obtain v where v: "map_of r ''status'' =
      Some (stored_value (col_type (notNull (default' (SqlText ''scheduled'')
                     (enum_column matchStatusEnum ''status'')))) v)"
    and c: "if v = SqlNull
            then \<not> col_notNull (notNull (default' (SqlText ''scheduled'')
                     (enum_column matchStatusEnum ''status'')))
            else conforms (col_type (notNull (default' (SqlText ''scheduled'')
                     (enum_column matchStatusEnum ''status'')))) v"
    by blast
  have t: "col_type (notNull (default' (SqlText ''scheduled'')
      (enum_column matchStatusEnum ''status''))) = PgEnum [''scheduled'', ''live'', ''finished'']"
    by (simp add: notNull_def default'_def enum_column_def plain_column_def
        matchStatusEnum_def pgEnum_def)
  from c have "conforms (PgEnum [''scheduled'', ''live'', ''finished'']) v"
    by (auto simp: notNull_def default'_def enum_column_def plain_column_def
        matchStatusEnum_def pgEnum_def split: if_splits)
  moreover from v have "map_of r ''status'' = Some v"
    by (simp add: t stored_value_other)
  ultimately show ?thesis
    by (cases v) (auto simp: status_ok_def)
qed

lemma createMatch_accepted:
  assumes "safeParse (createMatchSchema host) body = Inr data"
  shows "\<exists>q. body = Obj q \<and> data = Obj (fst (parse_shape createMatch_shape q))
           \<and> snd (parse_shape createMatch_shape q) = []"
proof -
  from assms obtain q where q: "body = Obj q"
    unfolding createMatchSchema_def by (blast dest: safeParse_Inr_object)
  from assms q have i: "issues (createMatchSchema host (Obj q)) = []"
    and d: "data = Obj (fst (parse_shape createMatch_shape q))"
    by (auto simp: safeParse_createMatch split: if_splits)
  from i have "snd (parse_shape createMatch_shape q) = []"
    by (auto simp: createMatchSchema_issues Let_def split: if_splits)
  with q d show ?thesis by blast
qed

lemma post_matches_ok:
  assumes "matches_ok d"
  shows "matches_ok (snd (post_matches host now body d))"
proof (cases "safeParse (createMatchSchema host) body")
  case (Inl errs)
  with assms show ?thesis by (simp add: post_matches_def)
next
  case (Inr data)
  from createMatch_accepted [OF Inr] obtain q where
    data: "data = Obj (fst (parse_shape createMatch_shape q))"
    and ok: "snd (parse_shape createMatch_shape q) = []"
    by blast
  let ?vals = "match_fields host data"
  obtain res d' where ins: "insert_matches now ?vals d = (res, d')"
    by (cases "insert_matches now ?vals d")
  show ?thesis
  proof (cases res)
    case (Inl e)
    with ins have "d' = d" by (simp add: insert_matches_Inl)
    with ins Inl Inr assms show ?thesis
      by (simp add: post_matches_def createMatch_def store_result_def)
  next
    case r: (Inr r)
    with ins have b: "build_row (tableColumns matches) (matches_id_seq d) now ?vals = Inr r"
      and rows: "matches_rows d' = matches_rows d @ [r]"
      by (simp_all add: insert_matches_Inr)
    note l = build_row_lookup [OF b distinct_matches_columns]
    have st: "status_ok r"
      using ins r by (simp add: insert_matches_status_ok)
    have sc: "score_ok k r" if k: "k = ''homeScore'' \<or> k = ''awayScore''" for k
    proof -
      from k l [OF matches_score_columns(1)] l [OF matches_score_columns(2)]
      have m: "map_of r k = Some (case map_of ?vals k of None \<Rightarrow> SqlInt 0 | Some v \<Rightarrow> v)"
        by (auto simp only: score_value)
      show ?thesis
      proof (cases "map_of ?vals k")
        case None
        with m show ?thesis by (simp add: score_ok_def)
      next
        case (Some v)
        with createMatch_data_score [OF ok k, of host v] data
        obtain n where "v = SqlInt n" "0 \<le> n" by auto
        with m Some show ?thesis by (simp add: score_ok_def)
      qed
    qed
    from st sc have "match_ok r" by (simp add: match_ok_def)
    with assms rows have "matches_ok d'" by (simp add: matches_ok_def)
    with ins r Inr show ?thesis
      by (simp add: post_matches_def createMatch_def store_result_def)
  qed
qed

lemma with_id_ok:
  assumes "matches_ok d" and "\<And>i. matches_ok (snd (f i))"
  shows "matches_ok (snd (with_id params d f))"
  using assms by (auto simp: with_id_def split: sum.splits option.splits)

lemma patch_match_score_ok:
  assumes "matches_ok d"
  shows "matches_ok (snd (patch_match_score params body d))"
  unfolding patch_match_score_def
proof (rule with_id_ok [OF assms])
  fix i
  show "matches_ok (snd (case safeParse updateScoreSchema body of
               Inl is \<Rightarrow> (ValidationError is, d)
             | Inr data \<Rightarrow>
                 (case (int_prop data ''homeScore'', int_prop data ''awayScore'') of
                    (Some hs, Some as) \<Rightarrow>
                      (case updateMatchScore i hs as d of
                         (Inl e, d') \<Rightarrow> (StoreError e, d')
                       | (Inr None, d') \<Rightarrow> (NotFoundError, d')
                       | (Inr (Some r), d') \<Rightarrow> (Success [r], d'))
                  | _ \<Rightarrow> (ValidationError [], d))))"
  proof (cases "safeParse updateScoreSchema body")
    case (Inl errs)
    with assms show ?thesis by simp
  next
    case (Inr data)
    show ?thesis
    proof (cases "int_prop data ''homeScore''")
      case None
      with Inr assms show ?thesis by simp
    next
      case hs: (Some hs)
      show ?thesis
      proof (cases "int_prop data ''awayScore''")
        case None
        with Inr hs assms show ?thesis by simp
      next
        case as: (Some as)
        from updateScoreSchema_data_nonneg [OF Inr _ hs] updateScoreSchema_data_nonneg [OF Inr _ as]
        have "0 \<le> hs" "0 \<le> as" by simp_all
        from updateMatchScore_ok [OF assms this, of i]
        have "matches_ok (snd (updateMatchScore i hs as d))" .
        with Inr hs as show ?thesis
          by (auto split: prod.splits sum.splits option.splits)
      qed
    qed
  qed
qed

lemma perform_ok:
  assumes "matches_ok d"
  shows "matches_ok (snd (perform host now op d))"
proof (cases op)
  case (ListMatches query)
  with assms show ?thesis by (auto simp: get_matches_def split: sum.splits)
next
  case (GetMatch params)
  with assms show ?thesis
    by (auto simp: get_match_def intro!: with_id_ok split: option.splits)
next
  case (CreateMatch body)
  with assms show ?thesis by (simp add: post_matches_ok)
next
  case (UpdateMatchScore params body)
  with assms show ?thesis by (simp add: patch_match_score_ok)
next
  case (DeleteMatch params)
  have "matches_ok (snd (case deleteMatch i d of
               (Inl e, d') \<Rightarrow> (StoreError e, d')
             | (Inr False, d') \<Rightarrow> (NotFoundError, d')
             | (Inr True, d') \<Rightarrow> (Success [], d')))" for i
    using deleteMatch_ok [OF assms, of i]
    by (auto split: prod.splits sum.splits bool.splits)
  with DeleteMatch assms show ?thesis
    by (auto simp: delete_match_def intro!: with_id_ok)
next
  case (AddCommentary params vals)
  have "matches_ok (snd (store_result (addCommentary now i vals d)))" for i
    using assms insert_commentary_matches_rows [of now "(''matchId'', SqlInt i) # vals" d]
    by (auto simp: store_result_def addCommentary_def matches_ok_def split: prod.splits sum.splits)
  with AddCommentary assms show ?thesis
    by (auto simp: post_commentary_def intro!: with_id_ok)
next
  case (ListCommentary params)
  with assms show ?thesis
    by (auto simp: get_commentary_def intro!: with_id_ok)
qed

lemma run_ok:
  "matches_ok d \<Longrightarrow> matches_ok (foldl (\<lambda>d (now, op). snd (perform host now op d)) d ops)"
  by (induction ops arbitrary: d) (auto simp: perform_ok)

lemma negative_score_rejected:
  assumes "Number v = Fin x" and "x < 0"
  shows "issues (z_coerce_number [z_int, z_min 0] v) \<noteq> []"
  using assms unfolding score_schema_ok by auto

lemma createMatch_success_fields:
  "success (safeParse (createMatchSchema host) (Obj q)) \<Longrightarrow>
   snd (parse_shape createMatch_shape q) = []"
  by (auto simp: safeParse_createMatch success_def createMatchSchema_issues Let_def
      split: if_splits)

lemma createMatch_negative_score_rejected:
  assumes "k = ''homeScore'' \<or> k = ''awayScore''"
    and "Number (getprop q k) = Fin x" and "x < 0"
  shows "\<not> success (safeParse (createMatchSchema host) (Obj q))"
proof
  assume "success (safeParse (createMatchSchema host) (Obj q))"
  then have "snd (parse_shape createMatch_shape q) = []"
    by (rule createMatch_success_fields)
  moreover from assms(1)
  have "(k, optional (z_coerce_number [z_int, z_min 0])) \<in> set createMatch_shape"
    by (auto simp: createMatch_shape_def)
  ultimately have "issues (optional (z_coerce_number [z_int, z_min 0]) (getprop q k)) = []"
    unfolding snd_parse_shape by (force simp: prefixIssues_Nil_iff)
  moreover from assms(2) have "getprop q k \<noteq> Undefined" by auto
  ultimately show False
    using negative_score_rejected [OF assms(2,3)] by (simp add: optional_issues)
qed

lemma updateScore_negative_score_rejected:
  assumes "k = ''homeScore'' \<or> k = ''awayScore''"
    and "Number (getprop q k) = Fin x" and "x < 0"
  shows "\<not> success (safeParse updateScoreSchema (Obj q))"
  using assms(1) negative_score_rejected [OF assms(2,3)]
  by (auto simp: updateScoreSchema_def safeParse_object_no_checks Let_def success_def
      prefixIssues_Nil_iff split: prod.splits)

text \<open>
  Claim C7. Every row of the matches table has a status among \<^verbatim>\<open>scheduled\<close>, \<^verbatim>\<open>live\<close>,
  \<^verbatim>\<open>finished\<close> and scores that are not negative: this holds after any sequence of
  operations from the empty tables, and every single operation preserves it. The enum
  type of the status column admits no other label, so every row that is inserted has
  one of the three. The create schema and the score schema both reject a body in which
  \<^verbatim>\<open>homeScore\<close> or \<^verbatim>\<open>awayScore\<close> converts to a negative number.
\<close>

theorem matches_invariant:
  "matches_ok (foldl (\<lambda>d (now, op). snd (perform host now op d)) empty_db ops)
   \<and> (matches_ok d \<longrightarrow> matches_ok (snd (perform host now op d)))
   \<and> (insert_matches now vals d = (Inr r, d') \<longrightarrow> status_ok r)
   \<and> (\<forall>k \<in> {''homeScore'', ''awayScore''}. \<forall>x.
         Number (getprop body k) = Fin x \<and> x < 0 \<longrightarrow>
           \<not> success (safeParse updateScoreSchema (Obj body))
           \<and> \<not> success (safeParse (createMatchSchema host) (Obj body)))"
proof (intro conjI impI ballI allI)
  have "matches_ok empty_db"
    by (simp add: matches_ok_def empty_db_def)
  then show "matches_ok (foldl (\<lambda>d (now, op). snd (perform host now op d)) empty_db ops)"
    by (rule run_ok)
next
  assume "matches_ok d"
  then show "matches_ok (snd (perform host now op d))"
    by (rule perform_ok)
next
  assume "insert_matches now vals d = (Inr r, d')"
  then show "status_ok r"
    by (rule insert_matches_status_ok)
next
  fix k x
  assume k: "k \<in> {''homeScore'', ''awayScore''}"
    and n: "Number (getprop body k) = Fin x \<and> x < 0"
  from k have k': "k = ''homeScore'' \<or> k = ''awayScore''" by simp
  from n updateScore_negative_score_rejected [OF k']
  show "\<not> success (safeParse updateScoreSchema (Obj body))" by blast
  from n createMatch_negative_score_rejected [OF k']
  show "\<not> success (safeParse (createMatchSchema host) (Obj body))" by blast
qed

lemma insert_commentary_Inr:
  "insert_commentary now vals d = (Inr c, d') \<Longrightarrow>
   build_row (tableColumns commentary) (commentary_id_seq d) now vals = Inr c
   \<and> commentary_rows d' = commentary_rows d @ [c]"
  by (auto simp: insert_commentary_def split: sum.splits if_splits)

lemma column_value_supplied: "column_value n now c (Some v) = v"
  by (simp add: column_value_def)

lemma commentary_columns:
  "(''matchId'', notNull (integer ''match_id'')) \<in> set (tableColumns commentary)"
  "(''metadata'', jsonb ''metadata'') \<in> set (tableColumns commentary)"
  "(''tags'', array (text' ''tags'')) \<in> set (tableColumns commentary)"
  by (simp_all add: commentary_def pgTable_def)

text \<open>
  The theorem at a create request with the score \<^verbatim>\<open>"2"\<close> and a \<^verbatim>\<open>status\<close> key that the
  schema strips (the row is stored as \<^verbatim>\<open>scheduled\<close>), at an insertion with the status
  \<^verbatim>\<open>live\<close>, and at a create body that is complete and valid but for the home score
  \<^verbatim>\<open>"-1"\<close>.
\<close>

theorem matches_invariant_witness:
  "matches_ok empty_db
   \<and> matches_rows (snd (perform no_fallback 1772000000000
        (CreateMatch (Obj [(''sport'', Str ''football''), (''homeTeam'', Str ''Team A''),
           (''awayTeam'', Str ''Team B''), (''startTime'', Str ''2026-03-01T15:00:00Z''),
           (''endTime'', Str ''2026-03-01T17:00:00Z''), (''status'', Str ''paused''),
           (''homeScore'', Str ''2'')])) empty_db)) =
       [[(''id'', SqlInt 1), (''sport'', SqlText ''football''),
         (''homeTeam'', SqlText ''Team A''), (''awayTeam'', SqlText ''Team B''),
         (''status'', SqlText ''scheduled''), (''startTime'', SqlTimestamp 1772377200000),
         (''endTime'', SqlTimestamp 1772384400000), (''homeScore'', SqlInt 2),
         (''awayScore'', SqlInt 0), (''createdAt'', SqlTimestamp 1772000000000)]]
   \<and> matches_ok (snd (perform no_fallback 1772000000000
        (CreateMatch (Obj [(''sport'', Str ''football''), (''homeTeam'', Str ''Team A''),
           (''awayTeam'', Str ''Team B''), (''startTime'', Str ''2026-03-01T15:00:00Z''),
           (''endTime'', Str ''2026-03-01T17:00:00Z''), (''status'', Str ''paused''),
           (''homeScore'', Str ''2'')])) empty_db))
   \<and> insert_matches 1772000000000
        [(''sport'', SqlText ''test''), (''homeTeam'', SqlText ''A''),
         (''awayTeam'', SqlText ''B''), (''status'', SqlText ''live''),
         (''startTime'', SqlTimestamp 1772377200000)] empty_db =
       (Inr [(''id'', SqlInt 1), (''sport'', SqlText ''test''), (''homeTeam'', SqlText ''A''),
             (''awayTeam'', SqlText ''B''), (''status'', SqlText ''live''),
             (''startTime'', SqlTimestamp 1772377200000), (''endTime'', SqlNull),
             (''homeScore'', SqlInt 0), (''awayScore'', SqlInt 0),
             (''createdAt'', SqlTimestamp 1772000000000)],
        \<lparr>matches_rows =
           [[(''id'', SqlInt 1), (''sport'', SqlText ''test''), (''homeTeam'', SqlText ''A''),
             (''awayTeam'', SqlText ''B''), (''status'', SqlText ''live''),
             (''startTime'', SqlTimestamp 1772377200000), (''endTime'', SqlNull),
             (''homeScore'', SqlInt 0), (''awayScore'', SqlInt 0),
             (''createdAt'', SqlTimestamp 1772000000000)]],
         commentary_rows = [], matches_id_seq = 2, commentary_id_seq = 1\<rparr>)
   \<and> status_ok [(''id'', SqlInt 1), (''sport'', SqlText ''test''), (''homeTeam'', SqlText ''A''),
             (''awayTeam'', SqlText ''B''), (''status'', SqlText ''live''),
             (''startTime'', SqlTimestamp 1772377200000), (''endTime'', SqlNull),
             (''homeScore'', SqlInt 0), (''awayScore'', SqlInt 0),
             (''createdAt'', SqlTimestamp 1772000000000)]
   \<and> ''homeScore'' \<in> {''homeScore'', ''awayScore''}
   \<and> Number (getprop [(''sport'', Str ''football''), (''homeTeam'', Str ''Team A''),
           (''awayTeam'', Str ''Team B''), (''startTime'', Str ''2026-03-01T15:00:00Z''),
           (''endTime'', Str ''2026-03-01T17:00:00Z''), (''homeScore'', Str ''-1''),
           (''awayScore'', Str ''0'')] ''homeScore'') =
       Fin (- 1)
   \<and> (- 1 :: rat) < 0
   \<and> \<not> success (safeParse updateScoreSchema
          (Obj [(''sport'', Str ''football''), (''homeTeam'', Str ''Team A''),
           (''awayTeam'', Str ''Team B''), (''startTime'', Str ''2026-03-01T15:00:00Z''),
           (''endTime'', Str ''2026-03-01T17:00:00Z''), (''homeScore'', Str ''-1''),
           (''awayScore'', Str ''0'')]))
   \<and> \<not> success (safeParse (createMatchSchema no_fallback)
          (Obj [(''sport'', Str ''football''), (''homeTeam'', Str ''Team A''),
           (''awayTeam'', Str ''Team B''), (''startTime'', Str ''2026-03-01T15:00:00Z''),
           (''endTime'', Str ''2026-03-01T17:00:00Z''), (''homeScore'', Str ''-1''),
           (''awayScore'', Str ''0'')]))"
proof -
  let ?body = "Obj [(''sport'', Str ''football''), (''homeTeam'', Str ''Team A''),
           (''awayTeam'', Str ''Team B''), (''startTime'', Str ''2026-03-01T15:00:00Z''),
           (''endTime'', Str ''2026-03-01T17:00:00Z''), (''status'', Str ''paused''),
           (''homeScore'', Str ''2'')]"
  let ?vals = "[(''sport'', SqlText ''test''), (''homeTeam'', SqlText ''A''),
         (''awayTeam'', SqlText ''B''), (''status'', SqlText ''live''),
         (''startTime'', SqlTimestamp 1772377200000)]"
  let ?r = "[(''id'', SqlInt 1), (''sport'', SqlText ''test''), (''homeTeam'', SqlText ''A''),
             (''awayTeam'', SqlText ''B''), (''status'', SqlText ''live''),
             (''startTime'', SqlTimestamp 1772377200000), (''endTime'', SqlNull),
             (''homeScore'', SqlInt 0), (''awayScore'', SqlInt 0),
             (''createdAt'', SqlTimestamp 1772000000000)]"
  let ?d' = "\<lparr>matches_rows = [?r], commentary_rows = [], matches_id_seq = 2,
              commentary_id_seq = 1\<rparr>"
  let ?neg = "[(''sport'', Str ''football''), (''homeTeam'', Str ''Team A''),
           (''awayTeam'', Str ''Team B''), (''startTime'', Str ''2026-03-01T15:00:00Z''),
           (''endTime'', Str ''2026-03-01T17:00:00Z''), (''homeScore'', Str ''-1''),
           (''awayScore'', Str ''0'')]"
  have e: "matches_ok empty_db"
    by code_simp
  have rows: "matches_rows (snd (perform no_fallback 1772000000000 (CreateMatch ?body) empty_db)) =
       [[(''id'', SqlInt 1), (''sport'', SqlText ''football''),
         (''homeTeam'', SqlText ''Team A''), (''awayTeam'', SqlText ''Team B''),
         (''status'', SqlText ''scheduled''), (''startTime'', SqlTimestamp 1772377200000),
         (''endTime'', SqlTimestamp 1772384400000), (''homeScore'', SqlInt 2),
         (''awayScore'', SqlInt 0), (''createdAt'', SqlTimestamp 1772000000000)]]"
    by code_simp
  have i: "insert_matches 1772000000000 ?vals empty_db = (Inr ?r, ?d')"
    by code_simp
  have k: "''homeScore'' \<in> {''homeScore'', ''awayScore''}"
    by simp
  have n: "Number (getprop ?neg ''homeScore'') = Fin (- 1) \<and> (- 1 :: rat) < 0"
    by code_simp
  note t = matches_invariant [where host = no_fallback and d = empty_db
      and now = 1772000000000 and op = "CreateMatch ?body" and vals = ?vals and r = ?r
      and d' = ?d' and body = ?neg]
  from t e have 1: "matches_ok (snd (perform no_fallback 1772000000000 (CreateMatch ?body) empty_db))"
    by blast
  from t i have 2: "status_ok ?r"
    by blast
  from t k n have 3: "\<not> success (safeParse updateScoreSchema (Obj ?neg))
      \<and> \<not> success (safeParse (createMatchSchema no_fallback) (Obj ?neg))"
    by blast
  from e rows 1 i 2 k n 3 show ?thesis
    by blast
qed

lemma set_insert_pair: "set (insert_pair kv kvs) = insert kv (set kvs)"
  by (induction kvs) auto

lemma set_sort_pairs: "set (sort_pairs kvs) = set kvs"
  by (induction kvs) (auto simp: sort_pairs_def set_insert_pair)

lemma json_value_not_Undefined: "json_value v \<Longrightarrow> v \<noteq> Undefined"
  by auto

lemma json_equal_jsonb_value: "json_value v \<Longrightarrow> json_equal (jsonb_value v) v"
proof (induction v)
  case (Num n)
  then show ?case by (cases n) auto
next
  case (Arr xs)
  then have "\<forall>x \<in> set xs. json_equal (jsonb_value x) x"
    by (auto simp: list_all_iff)
  then show ?case
    by (simp add: list_all2_map1 list_all2_same)
next
  case (Obj kvs)
  from Obj.prems have d: "distinct (map fst kvs)"
    and jv: "\<And>k v. (k, v) \<in> set kvs \<Longrightarrow> json_value v"
    by (auto simp: list_all_iff)
  from jv have "\<And>k v. (k, v) \<in> set kvs \<Longrightarrow> v \<noteq> Undefined"
    by (blast dest: json_value_not_Undefined)
  then have "filter (\<lambda>(k, v). v \<noteq> Undefined) kvs = kvs"
    by (auto simp: filter_id_conv)
  then have j: "jsonb_value (Obj kvs) =
      Obj (sort_pairs (map (\<lambda>(k, v). (k, jsonb_value v)) kvs))"
    by simp
  let ?a = "sort_pairs (map (\<lambda>(k, v). (k, jsonb_value v)) kvs)"
  have sa: "set ?a = (\<lambda>(k, v). (k, jsonb_value v)) ` set kvs"
    by (simp add: set_sort_pairs)
  have 1: "case map_of kvs k of None \<Rightarrow> False | Some w \<Rightarrow> json_equal v' w"
    if "(k, v') \<in> set ?a" for k v'
  proof -
    from that sa obtain v where kv: "(k, v) \<in> set kvs" and v': "v' = jsonb_value v"
      by auto
    from d kv have "map_of kvs k = Some v" by simp
    moreover from Obj.IH kv jv [OF kv] v' have "json_equal v' v"
      by (auto simp: snds.simps)
    ultimately show ?thesis by simp
  qed
  have 2: "map_of ?a k \<noteq> None" if "(k, w) \<in> set kvs" for k w
  proof -
    from that sa have "k \<in> fst ` set ?a" by force
    then show ?thesis by (simp add: map_of_eq_None_iff)
  qed
  from 1 2 show ?case
    unfolding j by (auto simp: list_all_iff)
qed auto

lemma commentary_column_types:
  "col_type (notNull (integer ''match_id'')) = PgInteger"
  "col_type (jsonb ''metadata'') = PgJsonb"
  "col_type (array (text' ''tags'')) = PgArray PgText"
  by (simp_all add: notNull_def integer_def jsonb_def array_def text'_def plain_column_def)

text \<open>
  Claim C8. When a commentary entry is added for a match with a \<^verbatim>\<open>metadata\<close> payload
  that is a JSON value and with a \<^verbatim>\<open>tags\<close> sequence, a later read of the commentary of
  that match returns the entries it returned before followed by the new entry. The
  \<^verbatim>\<open>metadata\<close> of the new entry is the normal form in which the \<^verbatim>\<open>jsonb\<close> column keeps
  the payload, and it is equal to the payload that was written: the same keys with the
  same values at every level, the elements of every array in their order; only the
  order in which the keys of an object stand may differ. The \<^verbatim>\<open>tags\<close> of the new entry
  are the tags that were written, in the same order.
\<close>

theorem commentary_round_trip:
  assumes "addCommentary now matchId vals d = (Inr c, d')"
    and "map_of vals ''metadata'' = Some (SqlJson m)"
    and "map_of vals ''tags'' = Some (SqlTextArray ts)"
    and "json_value m"
  shows "listCommentary matchId d' = listCommentary matchId d @ [c]
     \<and> map_of c ''metadata'' = Some (SqlJson (jsonb_value m))
     \<and> json_equal (jsonb_value m) m
     \<and> map_of c ''tags'' = Some (SqlTextArray ts)"
proof -
  let ?vals = "(''matchId'', SqlInt matchId) # vals"
  from assms(1) have b: "build_row (tableColumns commentary) (commentary_id_seq d) now ?vals = Inr c"
    and rows: "commentary_rows d' = commentary_rows d @ [c]"
    by (simp_all add: addCommentary_def insert_commentary_Inr)
  note l = build_row_lookup [OF b distinct_commentary_columns]
  from l [OF commentary_columns(1)] have mid: "map_of c ''matchId'' = Some (SqlInt matchId)"
    by (simp add: column_value_supplied commentary_column_types stored_value_def)
  from l [OF commentary_columns(2)] assms(2)
  have md: "map_of c ''metadata'' = Some (SqlJson (jsonb_value m))"
    by (simp add: column_value_supplied commentary_column_types stored_value_def)
  from l [OF commentary_columns(3)] assms(3) have tg: "map_of c ''tags'' = Some (SqlTextArray ts)"
    by (simp add: column_value_supplied commentary_column_types stored_value_def)
  from rows mid have "listCommentary matchId d' = listCommentary matchId d @ [c]"
    by (simp add: listCommentary_def)
  with md tg json_equal_jsonb_value [OF assms(4)] show ?thesis by simp
qed

text \<open>
  The theorem at an entry like those of the integration test, with the keys of the
  payload written in an order that is not the order of the store: the entry that is
  read back holds the payload with its keys reordered, at both levels, and the tags as
  they were written.
\<close>

theorem commentary_round_trip_witness:
  "addCommentary 1772000000005 1
     [(''minute'', SqlInt 23),
      (''metadata'',
         SqlJson (Obj [(''videoTimestamp'', Num (Fin (91 / 2))), (''playerId'', Num (Fin 123)),
                       (''player'', Obj [(''name'', Str ''John Doe''),
                                         (''id'', Num (Fin 10))])])),
      (''tags'', SqlTextArray [''goal'', ''highlight''])]
     \<lparr>matches_rows =
         [[(''id'', SqlInt 1), (''sport'', SqlText ''football''),
           (''homeTeam'', SqlText ''Team A''), (''awayTeam'', SqlText ''Team B''),
           (''status'', SqlText ''scheduled''), (''startTime'', SqlTimestamp 1772377200000),
           (''endTime'', SqlNull), (''homeScore'', SqlInt 0), (''awayScore'', SqlInt 0),
           (''createdAt'', SqlTimestamp 1772000000000)]],
       commentary_rows = [], matches_id_seq = 2, commentary_id_seq = 1\<rparr> =
     (Inr [(''id'', SqlInt 1), (''matchId'', SqlInt 1), (''minute'', SqlInt 23),
           (''sequence'', SqlNull), (''period'', SqlNull), (''eventType'', SqlNull),
           (''actor'', SqlNull), (''team'', SqlNull), (''message'', SqlNull),
           (''metadata'',
              SqlJson (Obj [(''player'', Obj [(''id'', Num (Fin 10)),
                                              (''name'', Str ''John Doe'')]),
                            (''playerId'', Num (Fin 123)),
                            (''videoTimestamp'', Num (Fin (91 / 2)))])),
           (''tags'', SqlTextArray [''goal'', ''highlight'']),
           (''createdAt'', SqlTimestamp 1772000000005)],
      \<lparr>matches_rows =
         [[(''id'', SqlInt 1), (''sport'', SqlText ''football''),
           (''homeTeam'', SqlText ''Team A''), (''awayTeam'', SqlText ''Team B''),
           (''status'', SqlText ''scheduled''), (''startTime'', SqlTimestamp 1772377200000),
           (''endTime'', SqlNull), (''homeScore'', SqlInt 0), (''awayScore'', SqlInt 0),
           (''createdAt'', SqlTimestamp 1772000000000)]],
       commentary_rows =
         [[(''id'', SqlInt 1), (''matchId'', SqlInt 1), (''minute'', SqlInt 23),
           (''sequence'', SqlNull), (''period'', SqlNull), (''eventType'', SqlNull),
           (''actor'', SqlNull), (''team'', SqlNull), (''message'', SqlNull),
           (''metadata'',
              SqlJson (Obj [(''player'', Obj [(''id'', Num (Fin 10)),
                                              (''name'', Str ''John Doe'')]),
                            (''playerId'', Num (Fin 123)),
                            (''videoTimestamp'', Num (Fin (91 / 2)))])),
           (''tags'', SqlTextArray [''goal'', ''highlight'']),
           (''createdAt'', SqlTimestamp 1772000000005)]],
       matches_id_seq = 2, commentary_id_seq = 2\<rparr>)
   \<and> json_value (Obj [(''videoTimestamp'', Num (Fin (91 / 2))), (''playerId'', Num (Fin 123)),
                       (''player'', Obj [(''name'', Str ''John Doe''),
                                         (''id'', Num (Fin 10))])])
   \<and> jsonb_value (Obj [(''videoTimestamp'', Num (Fin (91 / 2))), (''playerId'', Num (Fin 123)),
                        (''player'', Obj [(''name'', Str ''John Doe''),
                                          (''id'', Num (Fin 10))])]) =
       Obj [(''player'', Obj [(''id'', Num (Fin 10)), (''name'', Str ''John Doe'')]),
            (''playerId'', Num (Fin 123)),
            (''videoTimestamp'', Num (Fin (91 / 2)))]
   \<and> json_equal
        (jsonb_value (Obj [(''videoTimestamp'', Num (Fin (91 / 2))), (''playerId'', Num (Fin 123)),
                           (''player'', Obj [(''name'', Str ''John Doe''),
                                             (''id'', Num (Fin 10))])]))
        (Obj [(''videoTimestamp'', Num (Fin (91 / 2))), (''playerId'', Num (Fin 123)),
              (''player'', Obj [(''name'', Str ''John Doe''), (''id'', Num (Fin 10))])])
   \<and> map_of [(''id'', SqlInt 1), (''matchId'', SqlInt 1), (''minute'', SqlInt 23),
           (''sequence'', SqlNull), (''period'', SqlNull), (''eventType'', SqlNull),
           (''actor'', SqlNull), (''team'', SqlNull), (''message'', SqlNull),
           (''metadata'',
              SqlJson (Obj [(''player'', Obj [(''id'', Num (Fin 10)),
                                              (''name'', Str ''John Doe'')]),
                            (''playerId'', Num (Fin 123)),
                            (''videoTimestamp'', Num (Fin (91 / 2)))])),
           (''tags'', SqlTextArray [''goal'', ''highlight'']),
           (''createdAt'', SqlTimestamp 1772000000005)] ''tags'' =
       Some (SqlTextArray [''goal'', ''highlight''])
   \<and> listCommentary 1
       \<lparr>matches_rows =
         [[(''id'', SqlInt 1), (''sport'', SqlText ''football''),
           (''homeTeam'', SqlText ''Team A''), (''awayTeam'', SqlText ''Team B''),
           (''status'', SqlText ''scheduled''), (''startTime'', SqlTimestamp 1772377200000),
           (''endTime'', SqlNull), (''homeScore'', SqlInt 0), (''awayScore'', SqlInt 0),
           (''createdAt'', SqlTimestamp 1772000000000)]],
       commentary_rows =
         [[(''id'', SqlInt 1), (''matchId'', SqlInt 1), (''minute'', SqlInt 23),
           (''sequence'', SqlNull), (''period'', SqlNull), (''eventType'', SqlNull),
           (''actor'', SqlNull), (''team'', SqlNull), (''message'', SqlNull),
           (''metadata'',
              SqlJson (Obj [(''player'', Obj [(''id'', Num (Fin 10)),
                                              (''name'', Str ''John Doe'')]),
                            (''playerId'', Num (Fin 123)),
                            (''videoTimestamp'', Num (Fin (91 / 2)))])),
           (''tags'', SqlTextArray [''goal'', ''highlight'']),
           (''createdAt'', SqlTimestamp 1772000000005)]],
       matches_id_seq = 2, commentary_id_seq = 2\<rparr> =
     listCommentary 1
       \<lparr>matches_rows =
         [[(''id'', SqlInt 1), (''sport'', SqlText ''football''),
           (''homeTeam'', SqlText ''Team A''), (''awayTeam'', SqlText ''Team B''),
           (''status'', SqlText ''scheduled''), (''startTime'', SqlTimestamp 1772377200000),
           (''endTime'', SqlNull), (''homeScore'', SqlInt 0), (''awayScore'', SqlInt 0),
           (''createdAt'', SqlTimestamp 1772000000000)]],
       commentary_rows = [], matches_id_seq = 2, commentary_id_seq = 1\<rparr>
     @ [[(''id'', SqlInt 1), (''matchId'', SqlInt 1), (''minute'', SqlInt 23),
           (''sequence'', SqlNull), (''period'', SqlNull), (''eventType'', SqlNull),
           (''actor'', SqlNull), (''team'', SqlNull), (''message'', SqlNull),
           (''metadata'',
              SqlJson (Obj [(''player'', Obj [(''id'', Num (Fin 10)),
                                              (''name'', Str ''John Doe'')]),
                            (''playerId'', Num (Fin 123)),
                            (''videoTimestamp'', Num (Fin (91 / 2)))])),
           (''tags'', SqlTextArray [''goal'', ''highlight'']),
           (''createdAt'', SqlTimestamp 1772000000005)]]"
proof -
  let ?m = "Obj [(''videoTimestamp'', Num (Fin (91 / 2))), (''playerId'', Num (Fin 123)),
                 (''player'', Obj [(''name'', Str ''John Doe''), (''id'', Num (Fin 10))])]"
  let ?m' = "Obj [(''player'', Obj [(''id'', Num (Fin 10)), (''name'', Str ''John Doe'')]),
                  (''playerId'', Num (Fin 123)),
                  (''videoTimestamp'', Num (Fin (91 / 2)))]"
  let ?vals = "[(''minute'', SqlInt 23), (''metadata'', SqlJson ?m),
      (''tags'', SqlTextArray [''goal'', ''highlight''])]"
  let ?match = "[(''id'', SqlInt 1), (''sport'', SqlText ''football''),
           (''homeTeam'', SqlText ''Team A''), (''awayTeam'', SqlText ''Team B''),
           (''status'', SqlText ''scheduled''), (''startTime'', SqlTimestamp 1772377200000),
           (''endTime'', SqlNull), (''homeScore'', SqlInt 0), (''awayScore'', SqlInt 0),
           (''createdAt'', SqlTimestamp 1772000000000)]"
  let ?c = "[(''id'', SqlInt 1), (''matchId'', SqlInt 1), (''minute'', SqlInt 23),
           (''sequence'', SqlNull), (''period'', SqlNull), (''eventType'', SqlNull),
           (''actor'', SqlNull), (''team'', SqlNull), (''message'', SqlNull),
           (''metadata'', SqlJson ?m'),
           (''tags'', SqlTextArray [''goal'', ''highlight'']),
           (''createdAt'', SqlTimestamp 1772000000005)]"
  let ?d = "\<lparr>matches_rows = [?match], commentary_rows = [], matches_id_seq = 2,
             commentary_id_seq = 1\<rparr>"
  let ?d' = "\<lparr>matches_rows = [?match], commentary_rows = [?c], matches_id_seq = 2,
              commentary_id_seq = 2\<rparr>"
  have a: "addCommentary 1772000000005 1 ?vals ?d = (Inr ?c, ?d')"
    by code_simp
  have m: "map_of ?vals ''metadata'' = Some (SqlJson ?m)"
    by simp
  have t: "map_of ?vals ''tags'' = Some (SqlTextArray [''goal'', ''highlight''])"
    by simp
  have j: "json_value ?m"
    by code_simp
  have n: "jsonb_value ?m = ?m'"
    by code_simp
  from a j n commentary_round_trip [OF a m t j] show ?thesis
    by blast
qed

end
